theory Spec2Isabelle
  imports Complex_Main "HOL-Library.Word" "HOL-Library.Sublist"
begin

unbundle bit_operations_syntax

section \<open>The Add-One host program (\<^verbatim>\<open>ocl-addon/cl_top_host.c\<close>)\<close>

text \<open>
  The host program talks to the accelerator only through the AWS FPGA SDK. The SDK and
  the hardware behind it are the environment of the program: what they answer is not
  decided by the program, so the embedding takes the answers as an input (\<open>env\<close>) and
  records, in the program state, every call the program makes (\<open>trace\<close>) and every
  line it prints (\<open>stdout\<close>).
\<close>

subsection \<open>Constants of the source\<close>

type_synonym u32 = "32 word"

definition INPUT_BASE_ADDR :: u32 where "INPUT_BASE_ADDR = 0x00"
definition OUTPUT_BASE_ADDR :: u32 where "OUTPUT_BASE_ADDR = 0x20"
definition CONTROL_REG_ADDR :: u32 where "CONTROL_REG_ADDR = 0x40"
definition STATUS_REG_ADDR :: u32 where "STATUS_REG_ADDR = 0x44"

definition START_BIT :: u32 where "START_BIT = 0x00000001"
definition DONE_BIT :: u32 where "DONE_BIT = 0x00000001"

definition NUM_REGISTERS :: nat where "NUM_REGISTERS = 8"

text \<open>\<^verbatim>\<open>const int max_polls = 1000\<close>, local to \<^verbatim>\<open>test_add_one_operation\<close>.\<close>

definition max_polls :: int where "max_polls = 1000"

subsection \<open>The environment: SDK calls and their answers\<close>

text \<open>
  Modelled from the spec: the image status of \<^verbatim>\<open>fpga_mgmt.h\<close>, which is not part of the
  repository. The spec (section 6) gives it as the enumeration NotProgrammed, Cleared,
  Loaded, Busy, Unknown; \<open>FPGA_STATUS_UNKNOWN\<close> stands for every value the program
  does not name.
\<close>

datatype fpga_status =
  FPGA_STATUS_NOT_PROGRAMMED | FPGA_STATUS_CLEARED | FPGA_STATUS_LOADED |
  FPGA_STATUS_BUSY | FPGA_STATUS_UNKNOWN

text \<open>
  Modelled from the spec: \<^verbatim>\<open>struct fpga_mgmt_image_info\<close>, cut down to the three fields
  the program reads (the status and the PCI ids of the application function).
\<close>

record fpga_mgmt_image_info =
  info_status :: fpga_status
  info_vendor_id :: u32
  info_device_id :: u32

text \<open>
  The answers of the environment. A return code is a C \<^verbatim>\<open>int\<close>, 0 for success. The
  management calls, attach and detach happen at most once in a run, so one answer each
  is enough; \<open>attach_resp\<close> is the return code and the value left in
  \<^verbatim>\<open>pci_bar_handle\<close> by the call. Register accesses happen many times: \<open>peek_resp e n\<close>
  is the return code and the value stored by the \<open>n\<close>-th \<^verbatim>\<open>fpga_pci_peek\<close> of the run
  (counting from 0), \<open>poke_resp e n\<close> the return code of the \<open>n\<close>-th
  \<^verbatim>\<open>fpga_pci_poke\<close>.
\<close>

record env =
  mgmt_init_rc :: int
  describe_resp :: "int \<times> fpga_mgmt_image_info"
  attach_resp :: "int \<times> int"
  detach_rc :: int
  peek_resp :: "nat \<Rightarrow> int \<times> u32"
  poke_resp :: "nat \<Rightarrow> int"

datatype event =
  MgmtInit
| DescribeLocalImage int
| Attach int int int
| Detach int
| Poke int u32 u32
| Peek int u32
| Usleep nat

text \<open>An argument of a \<^verbatim>\<open>printf\<close>: \<^verbatim>\<open>%d\<close>, \<^verbatim>\<open>%x\<close> or \<^verbatim>\<open>%s\<close>.\<close>

datatype parg = D int | X u32 | S string

record state =
  n_peek :: nat
  n_poke :: nat
  trace :: "event list"
  stdout :: "(string \<times> parg list) list"

definition init_state :: state where
  "init_state = \<lparr>n_peek = 0, n_poke = 0, trace = [], stdout = []\<rparr>"

text \<open>
  One entry of \<open>stdout\<close> is one \<^verbatim>\<open>printf\<close> call: its format string and its arguments.
  The format strings are those of the source without their newline characters and
  without the non-ASCII pictograph, and the blank after it, that some of them contain
  (also in the \<^verbatim>\<open>PASS\<close> and \<^verbatim>\<open>FAIL\<close> arguments of the result rows).
\<close>

definition printf :: "string \<Rightarrow> parg list \<Rightarrow> state \<Rightarrow> state" where
  "printf fmt args s = s\<lparr>stdout := stdout s @ [(fmt, args)]\<rparr>"

definition usleep :: "nat \<Rightarrow> state \<Rightarrow> state" where
  "usleep us s = s\<lparr>trace := trace s @ [Usleep us]\<rparr>"

definition fpga_mgmt_init :: "env \<Rightarrow> state \<Rightarrow> int \<times> state" where
  "fpga_mgmt_init e s = (mgmt_init_rc e, s\<lparr>trace := trace s @ [MgmtInit]\<rparr>)"

definition fpga_mgmt_describe_local_image ::
  "env \<Rightarrow> int \<Rightarrow> state \<Rightarrow> (int \<times> fpga_mgmt_image_info) \<times> state" where
  "fpga_mgmt_describe_local_image e slot_id s =
     (describe_resp e, s\<lparr>trace := trace s @ [DescribeLocalImage slot_id]\<rparr>)"

definition fpga_pci_attach ::
  "env \<Rightarrow> int \<Rightarrow> int \<Rightarrow> int \<Rightarrow> state \<Rightarrow> (int \<times> int) \<times> state" where
  "fpga_pci_attach e slot_id pf_id bar_id s =
     (attach_resp e, s\<lparr>trace := trace s @ [Attach slot_id pf_id bar_id]\<rparr>)"

definition fpga_pci_detach :: "env \<Rightarrow> int \<Rightarrow> state \<Rightarrow> int \<times> state" where
  "fpga_pci_detach e h s = (detach_rc e, s\<lparr>trace := trace s @ [Detach h]\<rparr>)"

definition fpga_pci_poke :: "env \<Rightarrow> int \<Rightarrow> u32 \<Rightarrow> u32 \<Rightarrow> state \<Rightarrow> int \<times> state" where
  "fpga_pci_poke e h addr v s =
     (poke_resp e (n_poke s),
      s\<lparr>n_poke := Suc (n_poke s), trace := trace s @ [Poke h addr v]\<rparr>)"

definition fpga_pci_peek :: "env \<Rightarrow> int \<Rightarrow> u32 \<Rightarrow> state \<Rightarrow> (int \<times> u32) \<times> state" where
  "fpga_pci_peek e h addr s =
     (peek_resp e (n_peek s),
      s\<lparr>n_peek := Suc (n_peek s), trace := trace s @ [Peek h addr]\<rparr>)"

subsection \<open>\<^verbatim>\<open>check_afi_ready\<close>\<close>

text \<open>The nested conditional that names the status in the error message.\<close>

definition status_name :: "fpga_status \<Rightarrow> string" where
  "status_name st =
     (if st = FPGA_STATUS_NOT_PROGRAMMED then ''NOT_PROGRAMMED''
      else if st = FPGA_STATUS_CLEARED then ''CLEARED''
      else if st = FPGA_STATUS_LOADED then ''LOADED''
      else if st = FPGA_STATUS_BUSY then ''BUSY'' else ''UNKNOWN'')"

definition check_afi_ready :: "env \<Rightarrow> int \<Rightarrow> state \<Rightarrow> int \<times> state" where
  "check_afi_ready e slot_id s0 =
     (case fpga_mgmt_describe_local_image e slot_id s0 of ((rc, info), s1) \<Rightarrow>
        if rc \<noteq> 0 then
          (rc, printf ''ERROR: Unable to get AFI information from slot %d. Are you running as root?''
                 [D slot_id] s1)
        else
          let s2 = printf ''AFI PCI  Vendor ID: 0x%x, Device ID 0x%x''
                     [X (info_vendor_id info), X (info_device_id info)] s1
          in if info_status info \<noteq> FPGA_STATUS_LOADED then
               (1, printf ''       AFI status: %s'' [S (status_name (info_status info))]
                     (printf ''ERROR: AFI is not in LOADED state!'' [] s2))
             else (0, printf ''AFI is loaded and ready'' [] s2))"

subsection \<open>\<^verbatim>\<open>test_add_one_operation\<close>, step by step\<close>

text \<open>
  A \<^verbatim>\<open>for (int i = 0; i < NUM_REGISTERS; i++)\<close> loop is a recursion over the slots
  \<open>[0..<NUM_REGISTERS]\<close>. A step of the function yields \<open>Some rc\<close> where the source
  executes \<^verbatim>\<open>return rc\<close>, and \<open>None\<close> where control falls through to the next step.
  The arrays \<^verbatim>\<open>test_data\<close> and \<^verbatim>\<open>output_data\<close> are lists; both are filled in
  ascending slot order, so storing to slot \<open>i\<close> appends the \<open>i\<close>-th element.
\<close>

fun initialize_loop :: "nat list \<Rightarrow> u32 list \<Rightarrow> state \<Rightarrow> u32 list \<times> state" where
  "initialize_loop [] test_data s = (test_data, s)"
| "initialize_loop (i # is) test_data s =
     (let v = 0x10000000 + of_nat i
      in initialize_loop is (test_data @ [v])
           (printf ''  Input[%d] = 0x%08x'' [D (int i), X v] s))"

definition initialize_test_data :: "state \<Rightarrow> u32 list \<times> state" where
  "initialize_test_data s =
     initialize_loop [0..<NUM_REGISTERS] [] (printf ''Step 1: Initializing test data'' [] s)"

definition clear_control_register :: "env \<Rightarrow> int \<Rightarrow> state \<Rightarrow> int option \<times> state" where
  "clear_control_register e h s =
     (case fpga_pci_poke e h CONTROL_REG_ADDR 0x00000000
             (printf ''Step 2: Clearing control register'' [] s) of (rc, s1) \<Rightarrow>
        if rc \<noteq> 0 then (Some rc, printf ''ERROR: Failed to clear control register'' [] s1)
        else (None, s1))"

fun write_input_loop ::
  "env \<Rightarrow> int \<Rightarrow> u32 list \<Rightarrow> nat list \<Rightarrow> state \<Rightarrow> int option \<times> state" where
  "write_input_loop e h test_data [] s = (None, s)"
| "write_input_loop e h test_data (i # is) s =
     (let addr = INPUT_BASE_ADDR + of_nat (i * 4)
      in case fpga_pci_poke e h addr (test_data ! i) s of (rc, s1) \<Rightarrow>
           if rc \<noteq> 0 then
             (Some rc, printf ''ERROR: Failed to write input register %d'' [D (int i)] s1)
           else write_input_loop e h test_data is
                  (printf ''  Wrote 0x%08x to address 0x%02x'' [X (test_data ! i), X addr] s1))"

definition write_input_data ::
  "env \<Rightarrow> int \<Rightarrow> u32 list \<Rightarrow> state \<Rightarrow> int option \<times> state" where
  "write_input_data e h test_data s =
     write_input_loop e h test_data [0..<NUM_REGISTERS]
       (printf ''Step 3: Writing input data to FPGA'' [] s)"

fun readback_loop ::
  "env \<Rightarrow> int \<Rightarrow> u32 list \<Rightarrow> nat list \<Rightarrow> state \<Rightarrow> int option \<times> state" where
  "readback_loop e h test_data [] s = (None, s)"
| "readback_loop e h test_data (i # is) s =
     (let addr = INPUT_BASE_ADDR + of_nat (i * 4)
      in case fpga_pci_peek e h addr s of ((rc, read_data), s1) \<Rightarrow>
           if rc \<noteq> 0 then
             (Some rc, printf ''ERROR: Failed to read input register %d'' [D (int i)] s1)
           else if read_data \<noteq> test_data ! i then
             (Some 1,
              printf ''ERROR: Input readback mismatch at reg %d: expected 0x%08x, got 0x%08x''
                [D (int i), X (test_data ! i), X read_data] s1)
           else readback_loop e h test_data is
                  (printf ''  Input[%d] readback: 0x%08x'' [D (int i), X read_data] s1))"

definition verify_input_readback ::
  "env \<Rightarrow> int \<Rightarrow> u32 list \<Rightarrow> state \<Rightarrow> int option \<times> state" where
  "verify_input_readback e h test_data s =
     readback_loop e h test_data [0..<NUM_REGISTERS]
       (printf ''Step 4: Verifying input data readback'' [] s)"

definition check_initial_status :: "env \<Rightarrow> int \<Rightarrow> state \<Rightarrow> int option \<times> state" where
  "check_initial_status e h s =
     (case fpga_pci_peek e h STATUS_REG_ADDR
             (printf ''Step 5: Checking initial status'' [] s) of ((rc, status), s1) \<Rightarrow>
        if rc \<noteq> 0 then (Some rc, printf ''ERROR: Failed to read status register'' [] s1)
        else (None, printf ''Initial status: 0x%08x'' [X status] s1))"

definition start_computation :: "env \<Rightarrow> int \<Rightarrow> state \<Rightarrow> int option \<times> state" where
  "start_computation e h s =
     (case fpga_pci_poke e h CONTROL_REG_ADDR START_BIT
             (printf ''Step 6: Starting Add-One computation'' [] s) of (rc, s1) \<Rightarrow>
        if rc \<noteq> 0 then (Some rc, printf ''ERROR: Failed to start computation'' [] s1)
        else (None, printf ''Computation started'' [] s1))"

text \<open>
  The \<^verbatim>\<open>while\<close> loop of step 7, with the variables it reads and writes: \<open>status\<close> and
  \<open>poll_count\<close>. It yields them with the state when the loop condition fails.
\<close>

function poll_loop ::
  "env \<Rightarrow> int \<Rightarrow> u32 \<Rightarrow> int \<Rightarrow> state \<Rightarrow> int option \<times> u32 \<times> int \<times> state" where
  "poll_loop e h status poll_count s =
     (if status AND DONE_BIT = 0 \<and> poll_count < max_polls then
        case fpga_pci_peek e h STATUS_REG_ADDR (usleep 1000 s) of ((rc, status'), s1) \<Rightarrow>
          if rc \<noteq> 0 then
            (Some rc, status', poll_count,
             printf ''ERROR: Failed to read status register during polling'' [] s1)
          else
            poll_loop e h status' (poll_count + 1)
              (if (poll_count + 1) mod 100 = 0 then
                 printf ''  Polling... count=%d, status=0x%08x'' [D (poll_count + 1), X status'] s1
               else s1)
      else (None, status, poll_count, s))"
  by pat_completeness auto
termination
  by (relation "measure (\<lambda>(e, h, status, poll_count, s). nat (max_polls - poll_count))")
     auto

declare poll_loop.simps [simp del]

definition wait_for_completion :: "env \<Rightarrow> int \<Rightarrow> state \<Rightarrow> int option \<times> state" where
  "wait_for_completion e h s =
     (case poll_loop e h 0 0
             (printf ''Step 7: Waiting for computation to complete'' [] s) of
        (Some rc, status, poll_count, s1) \<Rightarrow> (Some rc, s1)
      | (None, status, poll_count, s1) \<Rightarrow>
          if poll_count \<ge> max_polls then
            (Some 1,
             printf ''ERROR: Timeout waiting for computation completion after %d polls''
               [D poll_count] s1)
          else (None, printf ''Computation completed after %d polls'' [D poll_count] s1))"

definition clear_start_bit :: "env \<Rightarrow> int \<Rightarrow> state \<Rightarrow> int option \<times> state" where
  "clear_start_bit e h s =
     (case fpga_pci_poke e h CONTROL_REG_ADDR 0x00000000
             (printf ''Step 8: Clearing start bit'' [] s) of (rc, s1) \<Rightarrow>
        if rc \<noteq> 0 then (Some rc, printf ''ERROR: Failed to clear start bit'' [] s1)
        else (None, s1))"

fun read_output_loop ::
  "env \<Rightarrow> int \<Rightarrow> nat list \<Rightarrow> u32 list \<Rightarrow> state \<Rightarrow> int option \<times> u32 list \<times> state" where
  "read_output_loop e h [] output_data s = (None, output_data, s)"
| "read_output_loop e h (i # is) output_data s =
     (let addr = OUTPUT_BASE_ADDR + of_nat (i * 4)
      in case fpga_pci_peek e h addr s of ((rc, v), s1) \<Rightarrow>
           if rc \<noteq> 0 then
             (Some rc, output_data @ [v],
              printf ''ERROR: Failed to read output register %d'' [D (int i)] s1)
           else read_output_loop e h is (output_data @ [v])
                  (printf ''  Output[%d] = 0x%08x'' [D (int i), X v] s1))"

definition read_output_data ::
  "env \<Rightarrow> int \<Rightarrow> state \<Rightarrow> int option \<times> u32 list \<times> state" where
  "read_output_data e h s =
     read_output_loop e h [0..<NUM_REGISTERS] []
       (printf ''Step 9: Reading output data'' [] s)"

text \<open>Step 10. \<open>expected\<close> is \<^verbatim>\<open>test_data[i] + 1\<close> on \<^verbatim>\<open>uint32_t\<close>.\<close>

definition expected :: "u32 \<Rightarrow> u32" where
  "expected x = x + 1"

fun compare_loop ::
  "u32 list \<Rightarrow> u32 list \<Rightarrow> nat list \<Rightarrow> int \<Rightarrow> state \<Rightarrow> int \<times> state" where
  "compare_loop test_data output_data [] correct_count s = (correct_count, s)"
| "compare_loop test_data output_data (i # is) correct_count s =
     (let is_correct = (output_data ! i = expected (test_data ! i))
      in compare_loop test_data output_data is
           (if is_correct then correct_count + 1 else correct_count)
           (printf ''%2d   | 0x%08x | 0x%08x | 0x%08x | %s''
              [D (int i), X (test_data ! i), X (output_data ! i), X (expected (test_data ! i)),
               S (if is_correct then ''PASS'' else ''FAIL'')] s))"

definition verify_results :: "u32 list \<Rightarrow> u32 list \<Rightarrow> state \<Rightarrow> int \<times> state" where
  "verify_results test_data output_data s =
     (let s1 = printf ''-----|------------|------------|------------|-------'' []
                 (printf ''Reg# | Input      | Output     | Expected   | Status'' []
                   (printf ''RESULTS COMPARISON:'' []
                     (printf ''Step 10: Verifying results'' [] s)))
      in case compare_loop test_data output_data [0..<NUM_REGISTERS] 0 s1 of
           (correct_count, s2) \<Rightarrow>
             let s3 = printf ''  Accuracy: %d%%'' [D ((correct_count * 100) div int NUM_REGISTERS)]
                        (printf ''  Correct results: %d/%d'' [D correct_count, D (int NUM_REGISTERS)]
                          (printf ''SUMMARY:'' [] s2))
             in if correct_count = int NUM_REGISTERS then
                  (0, printf ''ALL OUTPUTS CORRECT! Add-One operation working perfectly!'' [] s3)
                else
                  (1, printf ''SOME OUTPUTS INCORRECT! Add-One operation has issues.'' [] s3))"

definition test_add_one_operation :: "env \<Rightarrow> int \<Rightarrow> state \<Rightarrow> int \<times> state" where
  "test_add_one_operation e h s0 =
     (case initialize_test_data (printf ''=== Testing Add-One Operation ==='' [] s0) of
        (test_data, s1) \<Rightarrow>
     (case clear_control_register e h s1 of (Some rc, s) \<Rightarrow> (rc, s) | (None, s2) \<Rightarrow>
     (case write_input_data e h test_data s2 of (Some rc, s) \<Rightarrow> (rc, s) | (None, s3) \<Rightarrow>
     (case verify_input_readback e h test_data s3 of (Some rc, s) \<Rightarrow> (rc, s) | (None, s4) \<Rightarrow>
     (case check_initial_status e h s4 of (Some rc, s) \<Rightarrow> (rc, s) | (None, s5) \<Rightarrow>
     (case start_computation e h s5 of (Some rc, s) \<Rightarrow> (rc, s) | (None, s6) \<Rightarrow>
     (case wait_for_completion e h s6 of (Some rc, s) \<Rightarrow> (rc, s) | (None, s7) \<Rightarrow>
     (case clear_start_bit e h s7 of (Some rc, s) \<Rightarrow> (rc, s) | (None, s8) \<Rightarrow>
     (case read_output_data e h s8 of (Some rc, output_data, s) \<Rightarrow> (rc, s)
      | (None, output_data, s9) \<Rightarrow> verify_results test_data output_data s9)))))))))"

subsection \<open>\<^verbatim>\<open>peek_poke_example\<close> and \<^verbatim>\<open>main\<close>\<close>

text \<open>
  \<open>rc\<close> is one variable in the source: the return code of the detach is assigned to
  the variable that held the return code of \<^verbatim>\<open>test_add_one_operation\<close>.
\<close>

definition peek_poke_example :: "env \<Rightarrow> int \<Rightarrow> int \<Rightarrow> int \<Rightarrow> state \<Rightarrow> int \<times> state" where
  "peek_poke_example e slot_id pf_id bar_id s0 =
     (case fpga_pci_attach e slot_id pf_id bar_id
             (printf ''=== Initializing PCI BAR ==='' [] s0) of ((rc, pci_bar_handle), s1) \<Rightarrow>
        if rc \<noteq> 0 then
          (rc, printf ''ERROR: Unable to attach to the AFI on slot id %d, pf id %d, bar id %d''
                 [D slot_id, D pf_id, D bar_id] s1)
        else
          case test_add_one_operation e pci_bar_handle
                 (printf ''PCI BAR attached successfully'' [] s1) of (rc, s2) \<Rightarrow>
            let s3 = (if rc \<noteq> 0 then printf ''ERROR: Add-One operation test failed'' [] s2
                      else s2)
            in if pci_bar_handle \<ge> 0 then
                 case fpga_pci_detach e pci_bar_handle s3 of (rc, s4) \<Rightarrow>
                   if rc \<noteq> 0 then
                     (rc, printf ''ERROR: Failure while detaching from the FPGA'' [] s4)
                   else (rc, printf ''PCI BAR detached successfully'' [] s4)
               else (rc, s3))"

text \<open>
  \<^verbatim>\<open>FPGA_APP_PF\<close> and \<^verbatim>\<open>APP_PF_BAR0\<close> are macros of the SDK headers; \<open>main\<close> takes
  them as parameters. Its result is the value \<^verbatim>\<open>main\<close> returns, which the C runtime
  hands to \<^verbatim>\<open>exit\<close>.
\<close>

definition main :: "int \<Rightarrow> int \<Rightarrow> env \<Rightarrow> state \<Rightarrow> int \<times> state" where
  "main FPGA_APP_PF APP_PF_BAR0 e s0 =
     (let slot_id = 0; pf_id = FPGA_APP_PF; bar_id = APP_PF_BAR0
      in case fpga_mgmt_init e (printf ''=== AWS FPGA Simple Add-One Test ==='' [] s0) of
           (rc, s1) \<Rightarrow>
        if rc \<noteq> 0 then
          (1, printf ''ERROR: Unable to initialize the FPGA management library'' [] s1)
        else
          case check_afi_ready e slot_id
                 (printf ''FPGA management library initialized successfully'' [] s1) of
            (rc, s2) \<Rightarrow>
          if rc \<noteq> 0 then
            (rc, printf ''Cleaning up...'' [] (printf ''ERROR: AFI is not ready'' [] s2))
          else
            case peek_poke_example e slot_id pf_id bar_id
                   (printf ''AFI is ready, proceeding with test'' [] s2) of (rc, s3) \<Rightarrow>
            if rc \<noteq> 0 then
              (rc, printf ''Cleaning up...'' [] (printf ''ERROR: Peek/poke example failed'' [] s3))
            else
              (rc, printf ''Cleaning up...'' [] (printf ''Test completed successfully!'' [] s3)))"

section \<open>Runs of the program\<close>

text \<open>
  The definitions of this section describe runs: which answers of the environment make
  a step succeed, which SDK calls a run is expected to make, and which lines it is
  expected to print. They are not part of the program; the properties below relate
  them to it.
\<close>

subsection \<open>Operands and register addresses\<close>

text \<open>
  \<open>input_word i\<close> is the operand step 1 stores in slot \<open>i\<close>, and \<open>test_vector\<close> the
  array of the 8 operands.
\<close>

definition input_word :: "nat \<Rightarrow> u32" where
  "input_word i = 0x10000000 + of_nat i"

definition input_addr :: "nat \<Rightarrow> u32" where
  "input_addr i = INPUT_BASE_ADDR + of_nat (i * 4)"

definition output_addr :: "nat \<Rightarrow> u32" where
  "output_addr i = OUTPUT_BASE_ADDR + of_nat (i * 4)"

definition test_vector :: "u32 list" where
  "test_vector = map input_word [0..<NUM_REGISTERS]"

subsection \<open>Answers of the environment\<close>

text \<open>
  Counted from a state \<open>s\<close> in which the cycle starts, the cycle's register writes are
  number 0 (clear Control), 1 to 8 (inputs), 9 (start) and 10 (clear Control again);
  its register reads are number 0 to 7 (input readbacks), 8 (initial status), \<open>9 + j\<close>
  (polling attempt \<open>j + 1\<close>) and, when the done bit is seen at attempt \<open>n + 1\<close>,
  \<open>10 + n + i\<close> (output slot \<open>i\<close>).
  \<^item> \<open>started\<close>: steps 2 to 6 succeed: the first ten writes return 0, the 8 readbacks
    return 0 and the word written, the initial status read returns 0.
  \<^item> \<open>busy_polls e s n\<close>: the first \<open>n\<close> polling reads return 0 and a status word whose
    done bit is clear.
  \<^item> \<open>done_at e s n\<close>: moreover polling read \<open>n + 1\<close> returns 0 and a status word whose
    done bit is set; it is the first such read.
  \<^item> \<open>finishes e s n\<close>: steps 8 and 9 succeed after the done bit was seen at attempt
    \<open>n + 1\<close>.
  \<^item> \<open>outputs_correct e s n\<close>: the 8 output reads then return the expected words.
  \<^item> \<open>ready\<close>: the library initialisation and the readiness check succeed.
\<close>

definition started :: "env \<Rightarrow> state \<Rightarrow> bool" where
  "started e s \<longleftrightarrow>
     (\<forall>j<10. poke_resp e (n_poke s + j) = 0) \<and>
     (\<forall>i<NUM_REGISTERS. peek_resp e (n_peek s + i) = (0, input_word i)) \<and>
     fst (peek_resp e (n_peek s + 8)) = 0"

definition busy_polls :: "env \<Rightarrow> state \<Rightarrow> nat \<Rightarrow> bool" where
  "busy_polls e s n \<longleftrightarrow>
     (\<forall>j<n. fst (peek_resp e (n_peek s + 9 + j)) = 0 \<and>
            snd (peek_resp e (n_peek s + 9 + j)) AND DONE_BIT = 0)"

definition done_at :: "env \<Rightarrow> state \<Rightarrow> nat \<Rightarrow> bool" where
  "done_at e s n \<longleftrightarrow>
     busy_polls e s n \<and> fst (peek_resp e (n_peek s + 9 + n)) = 0 \<and>
     snd (peek_resp e (n_peek s + 9 + n)) AND DONE_BIT \<noteq> 0"

definition finishes :: "env \<Rightarrow> state \<Rightarrow> nat \<Rightarrow> bool" where
  "finishes e s n \<longleftrightarrow>
     poke_resp e (n_poke s + 10) = 0 \<and>
     (\<forall>i<NUM_REGISTERS. fst (peek_resp e (n_peek s + 10 + n + i)) = 0)"

definition outputs_correct :: "env \<Rightarrow> state \<Rightarrow> nat \<Rightarrow> bool" where
  "outputs_correct e s n \<longleftrightarrow>
     (\<forall>i<NUM_REGISTERS. snd (peek_resp e (n_peek s + 10 + n + i)) = expected (input_word i))"

definition ready :: "env \<Rightarrow> bool" where
  "ready e \<longleftrightarrow>
     mgmt_init_rc e = 0 \<and> fst (describe_resp e) = 0 \<and>
     info_status (snd (describe_resp e)) = FPGA_STATUS_LOADED"

subsection \<open>Expected SDK calls\<close>

text \<open>
  The register operations of steps 2 to 4 (\<open>stage_ops\<close>), 5 and 6 (\<open>start_ops\<close>), of
  \<open>n\<close> polling attempts (\<open>poll_ops\<close>) and of steps 8 and 9 (\<open>finish_ops\<close>).
  \<open>detach_calls\<close> counts the detach calls of a trace; \<open>extends s s'\<close> says that the trace
  of \<open>s'\<close> continues that of \<open>s\<close> with no detach call.
\<close>

definition stage_ops :: "int \<Rightarrow> event list" where
  "stage_ops h =
     Poke h CONTROL_REG_ADDR 0 #
     map (\<lambda>i. Poke h (input_addr i) (input_word i)) [0..<NUM_REGISTERS] @
     map (\<lambda>i. Peek h (input_addr i)) [0..<NUM_REGISTERS]"

definition start_ops :: "int \<Rightarrow> event list" where
  "start_ops h = [Peek h STATUS_REG_ADDR, Poke h CONTROL_REG_ADDR START_BIT]"

definition poll_ops :: "int \<Rightarrow> nat \<Rightarrow> event list" where
  "poll_ops h n = concat (replicate n [Usleep 1000, Peek h STATUS_REG_ADDR])"

definition finish_ops :: "int \<Rightarrow> event list" where
  "finish_ops h =
     Poke h CONTROL_REG_ADDR 0 # map (\<lambda>i. Peek h (output_addr i)) [0..<NUM_REGISTERS]"

definition cycle_ops :: "int \<Rightarrow> nat \<Rightarrow> event list" where
  "cycle_ops h k = stage_ops h @ start_ops h @ poll_ops h k @ finish_ops h"

definition detach_calls :: "event list \<Rightarrow> nat" where
  "detach_calls tr = length (filter (\<lambda>ev. case ev of Detach h \<Rightarrow> True | _ \<Rightarrow> False) tr)"

definition extends :: "state \<Rightarrow> state \<Rightarrow> bool" where
  "extends s s' \<longleftrightarrow>
     prefix (trace s) (trace s') \<and> detach_calls (trace s') = detach_calls (trace s)"

subsection \<open>Expected output\<close>

definition stage_lines :: "(string \<times> parg list) list" where
  "stage_lines =
     [(''=== Testing Add-One Operation ==='', []), (''Step 1: Initializing test data'', [])] @
     map (\<lambda>i. (''  Input[%d] = 0x%08x'', [D (int i), X (input_word i)])) [0..<NUM_REGISTERS] @
     [(''Step 2: Clearing control register'', []), (''Step 3: Writing input data to FPGA'', [])] @
     map (\<lambda>i. (''  Wrote 0x%08x to address 0x%02x'', [X (input_word i), X (input_addr i)]))
       [0..<NUM_REGISTERS]"

definition start_lines :: "u32 \<Rightarrow> (string \<times> parg list) list" where
  "start_lines v =
     (''Step 4: Verifying input data readback'', []) #
     map (\<lambda>i. (''  Input[%d] readback: 0x%08x'', [D (int i), X (input_word i)]))
       [0..<NUM_REGISTERS] @
     [(''Step 5: Checking initial status'', []), (''Initial status: 0x%08x'', [X v]),
      (''Step 6: Starting Add-One computation'', []), (''Computation started'', [])]"

fun polling_lines :: "env \<Rightarrow> nat \<Rightarrow> int \<Rightarrow> nat \<Rightarrow> (string \<times> parg list) list" where
  "polling_lines e q pc 0 = []"
| "polling_lines e q pc (Suc n) =
     (if (pc + 1) mod 100 = 0 then
        [(''  Polling... count=%d, status=0x%08x'', [D (pc + 1), X (snd (peek_resp e q))])]
      else []) @ polling_lines e (Suc q) (pc + 1) n"

definition wait_lines :: "env \<Rightarrow> nat \<Rightarrow> nat \<Rightarrow> (string \<times> parg list) list" where
  "wait_lines e q k =
     (''Step 7: Waiting for computation to complete'', []) #
     polling_lines e q 0 k @
     [if k = 1000 then
        (''ERROR: Timeout waiting for computation completion after %d polls'', [D (int k)])
      else (''Computation completed after %d polls'', [D (int k)])]"

definition output_values :: "env \<Rightarrow> nat \<Rightarrow> nat \<Rightarrow> u32 list" where
  "output_values e q n = map (\<lambda>j. snd (peek_resp e (q + j))) [0..<n]"

fun output_lines :: "env \<Rightarrow> nat \<Rightarrow> nat list \<Rightarrow> (string \<times> parg list) list" where
  "output_lines e q [] = []"
| "output_lines e q (i # is) =
     (''  Output[%d] = 0x%08x'', [D (int i), X (snd (peek_resp e q))]) # output_lines e (Suc q) is"

definition finish_lines :: "env \<Rightarrow> nat \<Rightarrow> (string \<times> parg list) list" where
  "finish_lines e q =
     [(''Step 8: Clearing start bit'', []), (''Step 9: Reading output data'', [])] @
     output_lines e q [0..<NUM_REGISTERS]"

definition result_row :: "u32 list \<Rightarrow> u32 list \<Rightarrow> nat \<Rightarrow> string \<times> parg list" where
  "result_row td out i =
     (''%2d   | 0x%08x | 0x%08x | 0x%08x | %s'',
      [D (int i), X (td ! i), X (out ! i), X (expected (td ! i)),
       S (if out ! i = expected (td ! i) then ''PASS'' else ''FAIL'')])"

definition correct_slots :: "u32 list \<Rightarrow> u32 list \<Rightarrow> nat list" where
  "correct_slots td out = filter (\<lambda>i. out ! i = expected (td ! i)) [0..<NUM_REGISTERS]"

definition report_header :: "(string \<times> parg list) list" where
  "report_header =
     [(''Step 10: Verifying results'', []), (''RESULTS COMPARISON:'', []),
      (''Reg# | Input      | Output     | Expected   | Status'', []),
      (''-----|------------|------------|------------|-------'', [])]"

definition summary_lines :: "int \<Rightarrow> (string \<times> parg list) list" where
  "summary_lines c =
     [(''SUMMARY:'', []),
      (''  Correct results: %d/%d'', [D c, D (int NUM_REGISTERS)]),
      (''  Accuracy: %d%%'', [D ((c * 100) div int NUM_REGISTERS)]),
      if c = int NUM_REGISTERS then
        (''ALL OUTPUTS CORRECT! Add-One operation working perfectly!'', [])
      else (''SOME OUTPUTS INCORRECT! Add-One operation has issues.'', [])]"

definition ready_lines :: "env \<Rightarrow> (string \<times> parg list) list" where
  "ready_lines e =
     [(''=== AWS FPGA Simple Add-One Test ==='', []),
      (''FPGA management library initialized successfully'', []),
      (''AFI PCI  Vendor ID: 0x%x, Device ID 0x%x'',
       [X (info_vendor_id (snd (describe_resp e))), X (info_device_id (snd (describe_resp e)))]),
      (''AFI is loaded and ready'', []),
      (''AFI is ready, proceeding with test'', [])]"

text \<open>
  \<open>logged dq dp ops out s\<close> is the state \<open>s\<close> after \<open>dq\<close> more register reads and
  \<open>dp\<close> more register writes, with the calls \<open>ops\<close> and the lines \<open>out\<close> appended.
\<close>

definition logged ::
  "nat \<Rightarrow> nat \<Rightarrow> event list \<Rightarrow> (string \<times> parg list) list \<Rightarrow> state \<Rightarrow> state" where
  "logged dq dp ops out s =
     s\<lparr>n_peek := n_peek s + dq, n_poke := n_poke s + dp,
       trace := trace s @ ops, stdout := stdout s @ out\<rparr>"

subsection \<open>Environments\<close>

text \<open>
  \<^item> \<open>env_ok\<close>: every call succeeds, the done bit is set at the first polling
    attempt, every output word is the input word plus one.
  \<^item> \<open>env_slot3\<close>: as \<open>env_ok\<close>, but output slot 3 holds the input word.
  \<^item> \<open>env_stuck\<close>: the status register never shows the done bit.
  \<^item> \<open>env_done_last\<close>: the status register shows the done bit at polling attempt
    1000 and not before.
  \<^item> \<open>env_readback3\<close>: as \<open>env_ok\<close>, but the readback of input slot 3 returns 0.
  \<^item> \<open>env_attach_fails\<close>: as \<open>env_ok\<close>, but the attach returns 2.
  \<^item> \<open>env_busy\<close>: as \<open>env_ok\<close>, but the image status is BUSY.
\<close>

definition loaded_info :: fpga_mgmt_image_info where
  "loaded_info =
     \<lparr>info_status = FPGA_STATUS_LOADED, info_vendor_id = 0x1D0F, info_device_id = 0xF000\<rparr>"

definition env_ok :: env where
  "env_ok =
     \<lparr>mgmt_init_rc = 0, describe_resp = (0, loaded_info), attach_resp = (0, 0), detach_rc = 0,
      peek_resp = (\<lambda>n. if n < 8 then (0, input_word n)
                        else if n = 8 then (0, 0)
                        else if n = 9 then (0, 1)
                        else (0, input_word (n - 10) + 1)),
      poke_resp = (\<lambda>n. 0)\<rparr>"

definition env_slot3 :: env where
  "env_slot3 =
     env_ok\<lparr>peek_resp := (\<lambda>n. if n = 13 then (0, input_word 3) else peek_resp env_ok n)\<rparr>"

definition env_stuck :: env where
  "env_stuck =
     env_ok\<lparr>peek_resp := (\<lambda>n. if n < 8 then (0, input_word n) else (0, 0))\<rparr>"

definition env_done_last :: env where
  "env_done_last =
     env_ok\<lparr>peek_resp := (\<lambda>n. if n < 8 then (0, input_word n)
                                  else if n = 1008 then (0, 1) else (0, 0))\<rparr>"

definition env_readback3 :: env where
  "env_readback3 =
     env_ok\<lparr>peek_resp := (\<lambda>n. if n = 3 then (0, 0) else peek_resp env_ok n)\<rparr>"

definition env_attach_fails :: env where
  "env_attach_fails = env_ok\<lparr>attach_resp := (2, - 1)\<rparr>"

definition env_busy :: env where
  "env_busy = env_ok\<lparr>describe_resp := (0, loaded_info\<lparr>info_status := FPGA_STATUS_BUSY\<rparr>)\<rparr>"

section \<open>Properties\<close>

subsection \<open>State bookkeeping\<close>

text \<open>
  Every SDK call and every \<^verbatim>\<open>printf\<close> turns a state into a \<open>logged\<close> one, and two
  \<open>logged\<close> in a row are one: the state after a run of steps is \<open>logged\<close> applied to
  the state before it.
\<close>

lemma slots: "[0..<NUM_REGISTERS] = [0, 1, 2, 3, 4, 5, 6, 7]"
  unfolding NUM_REGISTERS_def by (simp add: upt_rec)

lemma logged_logged [simp]:
  "logged a b o1 l1 (logged c d o2 l2 s) = logged (c + a) (d + b) (o2 @ o1) (l2 @ l1) s"
  by (simp add: logged_def)

lemma logged_sel [simp]:
  "n_peek (logged a b ops out s) = n_peek s + a"
  "n_poke (logged a b ops out s) = n_poke s + b"
  "trace (logged a b ops out s) = trace s @ ops"
  "stdout (logged a b ops out s) = stdout s @ out"
  by (simp_all add: logged_def)

lemma printf_logged: "printf fmt args s = logged 0 0 [] [(fmt, args)] s"
  by (simp add: printf_def logged_def)

lemma usleep_logged: "usleep us s = logged 0 0 [Usleep us] [] s"
  by (simp add: usleep_def logged_def)

lemma poke_logged:
  "fpga_pci_poke e h addr v s = (poke_resp e (n_poke s), logged 0 1 [Poke h addr v] [] s)"
  by (simp add: fpga_pci_poke_def logged_def)

lemma peek_logged:
  "fpga_pci_peek e h addr s = (peek_resp e (n_peek s), logged 1 0 [Peek h addr] [] s)"
  by (simp add: fpga_pci_peek_def logged_def)

lemmas to_logged = printf_logged usleep_logged poke_logged peek_logged

lemma test_vector_nth: "i < NUM_REGISTERS \<Longrightarrow> test_vector ! i = input_word i"
  by (simp add: test_vector_def)

lemma test_vector_map:
  "map (\<lambda>i. f i (test_vector ! i)) [0..<NUM_REGISTERS] =
   map (\<lambda>i. f i (input_word i)) [0..<NUM_REGISTERS]"
  by (simp add: test_vector_nth)

lemma counters_cong:
  assumes "n_peek s' = n_peek s" and "n_poke s' = n_poke s"
  shows "started e s' = started e s" and "done_at e s' n = done_at e s n"
    and "finishes e s' n = finishes e s n" and "outputs_correct e s' n = outputs_correct e s n"
  using assms
  by (simp_all add: started_def done_at_def busy_polls_def finishes_def outputs_correct_def)

lemma below_8: "(j :: nat) < 8 \<Longrightarrow> j \<in> {0, 1, 2, 3, 4, 5, 6, 7}"
  by auto

lemma input_addr_neq:
  "j < NUM_REGISTERS \<Longrightarrow> input_addr j \<noteq> STATUS_REG_ADDR"
  "j < NUM_REGISTERS \<Longrightarrow> input_addr j \<noteq> CONTROL_REG_ADDR"
  using below_8 [of j]
  by (auto simp: NUM_REGISTERS_def input_addr_def INPUT_BASE_ADDR_def STATUS_REG_ADDR_def
        CONTROL_REG_ADDR_def)

subsection \<open>Steps 1 to 6\<close>

text \<open>
  What each step returns, and the state it leaves, when the environment lets it
  succeed; and what the readback loop returns at the first slot whose readback differs
  from the word written.
\<close>

lemma initialize_loop_eq:
  "initialize_loop is td s =
     (td @ map input_word is,
      logged 0 0 [] (map (\<lambda>i. (''  Input[%d] = 0x%08x'', [D (int i), X (input_word i)])) is) s)"
  by (induction "is" arbitrary: td s) (simp_all add: to_logged input_word_def logged_def Let_def)

lemma initialize_test_data_eq:
  "initialize_test_data s =
     (test_vector,
      logged 0 0 []
        ((''Step 1: Initializing test data'', []) #
         map (\<lambda>i. (''  Input[%d] = 0x%08x'', [D (int i), X (input_word i)])) [0..<NUM_REGISTERS]) s)"
  by (simp add: initialize_test_data_def initialize_loop_eq test_vector_def to_logged)

lemma clear_control_register_ok:
  "poke_resp e (n_poke s) = 0 \<Longrightarrow>
   clear_control_register e h s =
     (None, logged 0 1 [Poke h CONTROL_REG_ADDR 0] [(''Step 2: Clearing control register'', [])] s)"
  by (simp add: clear_control_register_def to_logged)

lemma write_input_loop_ok:
  "\<forall>j<length is. poke_resp e (n_poke s + j) = 0 \<Longrightarrow>
   write_input_loop e h td is s =
     (None, logged 0 (length is) (map (\<lambda>i. Poke h (input_addr i) (td ! i)) is)
        (map (\<lambda>i. (''  Wrote 0x%08x to address 0x%02x'', [X (td ! i), X (input_addr i)])) is) s)"
proof (induction "is" arbitrary: s)
  case Nil
  then show ?case by (simp add: logged_def)
next
  case (Cons i "is")
  have 0: "poke_resp e (n_poke s) = 0" using Cons.prems by force
  have r: "\<forall>j<length is. poke_resp e (n_poke s + 1 + j) = 0" using Cons.prems by force
  show ?case
    using r by (simp add: 0 to_logged Cons.IH input_addr_def Let_def)
qed

lemma write_input_data_ok:
  "\<forall>j<NUM_REGISTERS. poke_resp e (n_poke s + j) = 0 \<Longrightarrow>
   write_input_data e h td s =
     (None, logged 0 NUM_REGISTERS (map (\<lambda>i. Poke h (input_addr i) (td ! i)) [0..<NUM_REGISTERS])
        ((''Step 3: Writing input data to FPGA'', []) #
         map (\<lambda>i. (''  Wrote 0x%08x to address 0x%02x'', [X (td ! i), X (input_addr i)]))
           [0..<NUM_REGISTERS]) s)"
  by (simp add: write_input_data_def printf_logged write_input_loop_ok)

lemma readback_loop_ok:
  "\<forall>j<length is. peek_resp e (n_peek s + j) = (0, td ! (is ! j)) \<Longrightarrow>
   readback_loop e h td is s =
     (None, logged (length is) 0 (map (\<lambda>i. Peek h (input_addr i)) is)
        (map (\<lambda>i. (''  Input[%d] readback: 0x%08x'', [D (int i), X (td ! i)])) is) s)"
proof (induction "is" arbitrary: s)
  case Nil
  then show ?case by (simp add: logged_def)
next
  case (Cons i "is")
  have 0: "peek_resp e (n_peek s) = (0, td ! i)" using Cons.prems by force
  have r: "\<forall>j<length is. peek_resp e (n_peek s + 1 + j) = (0, td ! (is ! j))"
    using Cons.prems by force
  show ?case
    using r by (simp add: 0 to_logged Cons.IH input_addr_def Let_def)
qed

lemma verify_input_readback_ok:
  "\<forall>j<NUM_REGISTERS. peek_resp e (n_peek s + j) = (0, td ! j) \<Longrightarrow>
   verify_input_readback e h td s =
     (None, logged NUM_REGISTERS 0 (map (\<lambda>i. Peek h (input_addr i)) [0..<NUM_REGISTERS])
        ((''Step 4: Verifying input data readback'', []) #
         map (\<lambda>i. (''  Input[%d] readback: 0x%08x'', [D (int i), X (td ! i)]))
           [0..<NUM_REGISTERS]) s)"
  by (simp add: verify_input_readback_def printf_logged readback_loop_ok)

lemma readback_loop_mismatch:
  assumes "m < length is"
    and "\<forall>j<m. peek_resp e (n_peek s + j) = (0, td ! (is ! j))"
    and "fst (peek_resp e (n_peek s + m)) = 0"
    and "snd (peek_resp e (n_peek s + m)) \<noteq> td ! (is ! m)"
  shows "readback_loop e h td is s =
     (Some 1,
      logged (Suc m) 0 (map (\<lambda>i. Peek h (input_addr i)) (take (Suc m) is))
        (map (\<lambda>i. (''  Input[%d] readback: 0x%08x'', [D (int i), X (td ! i)])) (take m is) @
         [(''ERROR: Input readback mismatch at reg %d: expected 0x%08x, got 0x%08x'',
           [D (int (is ! m)), X (td ! (is ! m)), X (snd (peek_resp e (n_peek s + m)))])]) s)"
  using assms
proof (induction "is" arbitrary: m s)
  case Nil
  then show ?case by simp
next
  case (Cons i "is")
  show ?case
  proof (cases m)
    case 0
    then show ?thesis
      using Cons.prems
      by (auto simp add: to_logged input_addr_def Let_def split: prod.splits)
  next
    case (Suc k)
    have 0: "peek_resp e (n_peek s) = (0, td ! i)"
      using Cons.prems(2) Suc by force
    let ?s = "logged 1 0 [Peek h (input_addr i)]
                [(''  Input[%d] readback: 0x%08x'', [D (int i), X (td ! i)])] s"
    have "readback_loop e h td is ?s =
     (Some 1,
      logged (Suc k) 0 (map (\<lambda>i. Peek h (input_addr i)) (take (Suc k) is))
        (map (\<lambda>i. (''  Input[%d] readback: 0x%08x'', [D (int i), X (td ! i)])) (take k is) @
         [(''ERROR: Input readback mismatch at reg %d: expected 0x%08x, got 0x%08x'',
           [D (int (is ! k)), X (td ! (is ! k)), X (snd (peek_resp e (n_peek ?s + k)))])]) ?s)"
    proof (rule Cons.IH)
      show "k < length is" using Cons.prems(1) Suc by simp
      show "\<forall>j<k. peek_resp e (n_peek ?s + j) = (0, td ! (is ! j))"
        using Cons.prems(2) Suc by force
      show "fst (peek_resp e (n_peek ?s + k)) = 0"
        using Cons.prems(3) Suc by simp
      show "snd (peek_resp e (n_peek ?s + k)) \<noteq> td ! (is ! k)"
        using Cons.prems(4) Suc by simp
    qed
    then show ?thesis
      using Suc by (simp add: 0 to_logged input_addr_def Let_def)
  qed
qed

lemma check_initial_status_ok:
  "fst (peek_resp e (n_peek s)) = 0 \<Longrightarrow>
   check_initial_status e h s =
     (None, logged 1 0 [Peek h STATUS_REG_ADDR]
        [(''Step 5: Checking initial status'', []),
         (''Initial status: 0x%08x'', [X (snd (peek_resp e (n_peek s)))])] s)"
  by (auto simp add: check_initial_status_def to_logged split: prod.splits)

lemma start_computation_ok:
  "poke_resp e (n_poke s) = 0 \<Longrightarrow>
   start_computation e h s =
     (None, logged 0 1 [Poke h CONTROL_REG_ADDR START_BIT]
        [(''Step 6: Starting Add-One computation'', []), (''Computation started'', [])] s)"
  by (simp add: start_computation_def to_logged)

lemma cycle_started:
  assumes "started e s"
  shows "test_add_one_operation e h s =
     (case wait_for_completion e h
             (logged 9 10 (stage_ops h @ start_ops h)
                (stage_lines @ start_lines (snd (peek_resp e (n_peek s + 8)))) s) of
        (Some rc, s') \<Rightarrow> (rc, s')
      | (None, s7) \<Rightarrow>
     (case clear_start_bit e h s7 of (Some rc, s') \<Rightarrow> (rc, s') | (None, s8) \<Rightarrow>
     (case read_output_data e h s8 of (Some rc, output_data, s') \<Rightarrow> (rc, s')
      | (None, output_data, s9) \<Rightarrow> verify_results test_vector output_data s9)))"
proof -
  have P: "poke_resp e (n_poke s + j) = 0" if "j < 10" for j
    using assms that by (simp add: started_def)
  have p0: "poke_resp e (n_poke s) = 0"
    using P [of 0] by simp
  have p1: "\<forall>j<NUM_REGISTERS. poke_resp e (n_poke s + 1 + j) = 0"
    using P [of "1 + j" for j] by (simp add: NUM_REGISTERS_def ac_simps)
  have p9: "poke_resp e (n_poke s + 9) = 0"
    using P [of 9] by simp
  have q0: "\<forall>j<NUM_REGISTERS. peek_resp e (n_peek s + j) = (0, test_vector ! j)"
    and q8: "fst (peek_resp e (n_peek s + 8)) = 0"
    using assms by (simp_all add: started_def test_vector_nth)
  let ?s1 = "logged 0 0 []
        ((''=== Testing Add-One Operation ==='', []) # (''Step 1: Initializing test data'', []) #
         map (\<lambda>i. (''  Input[%d] = 0x%08x'', [D (int i), X (input_word i)])) [0..<NUM_REGISTERS]) s"
  have 1: "initialize_test_data (printf ''=== Testing Add-One Operation ==='' [] s) =
             (test_vector, ?s1)"
    by (simp add: initialize_test_data_eq printf_logged)
  obtain s2 where 2: "clear_control_register e h ?s1 = (None, s2)"
    and s2: "s2 = logged 0 1 [Poke h CONTROL_REG_ADDR 0] [(''Step 2: Clearing control register'', [])] ?s1"
    using p0 by (simp add: clear_control_register_ok)
  obtain s3 where 3: "write_input_data e h test_vector s2 = (None, s3)"
    and s3: "s3 = logged 0 NUM_REGISTERS
        (map (\<lambda>i. Poke h (input_addr i) (input_word i)) [0..<NUM_REGISTERS])
        ((''Step 3: Writing input data to FPGA'', []) #
         map (\<lambda>i. (''  Wrote 0x%08x to address 0x%02x'', [X (input_word i), X (input_addr i)]))
           [0..<NUM_REGISTERS]) s2"
    using p1
    by (simp add: write_input_data_ok s2
          test_vector_map [of "\<lambda>i. Poke h (input_addr i)"]
          test_vector_map [of "\<lambda>i v. (''  Wrote 0x%08x to address 0x%02x'', [X v, X (input_addr i)])"])
  obtain s4 where 4: "verify_input_readback e h test_vector s3 = (None, s4)"
    and s4: "s4 = logged NUM_REGISTERS 0 (map (\<lambda>i. Peek h (input_addr i)) [0..<NUM_REGISTERS])
        ((''Step 4: Verifying input data readback'', []) #
         map (\<lambda>i. (''  Input[%d] readback: 0x%08x'', [D (int i), X (input_word i)]))
           [0..<NUM_REGISTERS]) s3"
    using q0
    by (simp add: verify_input_readback_ok s3 s2
          test_vector_map [of "\<lambda>i v. (''  Input[%d] readback: 0x%08x'', [D (int i), X v])"])
  obtain s5 where 5: "check_initial_status e h s4 = (None, s5)"
    and s5: "s5 = logged 1 0 [Peek h STATUS_REG_ADDR]
        [(''Step 5: Checking initial status'', []),
         (''Initial status: 0x%08x'', [X (snd (peek_resp e (n_peek s4)))])] s4"
    using q8 by (simp add: check_initial_status_ok s4 s3 s2 NUM_REGISTERS_def)
  obtain s6 where 6: "start_computation e h s5 = (None, s6)"
    and s6: "s6 = logged 0 1 [Poke h CONTROL_REG_ADDR START_BIT]
        [(''Step 6: Starting Add-One computation'', []), (''Computation started'', [])] s5"
    using p9 by (simp add: start_computation_ok s5 s4 s3 s2 NUM_REGISTERS_def)
  have "s6 = logged 9 10 (stage_ops h @ start_ops h)
                (stage_lines @ start_lines (snd (peek_resp e (n_peek s + 8)))) s"
    unfolding s6 s5 s4 s3 s2
    by (simp add: stage_ops_def start_ops_def stage_lines_def start_lines_def NUM_REGISTERS_def)
  then show ?thesis
    unfolding test_add_one_operation_def by (simp add: 1 2 3 4 5 6)
qed

lemma cycle_readback_mismatch:
  assumes "\<forall>j<9. poke_resp e (n_poke s + j) = 0" and "i < NUM_REGISTERS"
    and "\<forall>j<i. peek_resp e (n_peek s + j) = (0, input_word j)"
    and "fst (peek_resp e (n_peek s + i)) = 0"
    and "snd (peek_resp e (n_peek s + i)) \<noteq> input_word i"
  shows "test_add_one_operation e h s =
     (1, logged (Suc i) 9
           (Poke h CONTROL_REG_ADDR 0 #
            map (\<lambda>j. Poke h (input_addr j) (input_word j)) [0..<NUM_REGISTERS] @
            map (\<lambda>j. Peek h (input_addr j)) [0..<Suc i])
           (stage_lines @
            (''Step 4: Verifying input data readback'', []) #
            map (\<lambda>j. (''  Input[%d] readback: 0x%08x'', [D (int j), X (input_word j)])) [0..<i] @
            [(''ERROR: Input readback mismatch at reg %d: expected 0x%08x, got 0x%08x'',
              [D (int i), X (input_word i), X (snd (peek_resp e (n_peek s + i)))])]) s)"
proof -
  have P: "poke_resp e (n_poke s + j) = 0" if "j < 9" for j
    using assms(1) that by simp
  have p0: "poke_resp e (n_poke s) = 0"
    using P [of 0] by simp
  have p1: "\<forall>j<NUM_REGISTERS. poke_resp e (n_poke s + 1 + j) = 0"
    using P [of "1 + j" for j] by (simp add: NUM_REGISTERS_def ac_simps)
  define s1 where "s1 = logged 0 0 []
        ((''=== Testing Add-One Operation ==='', []) # (''Step 1: Initializing test data'', []) #
         map (\<lambda>i. (''  Input[%d] = 0x%08x'', [D (int i), X (input_word i)])) [0..<NUM_REGISTERS]) s"
  have 1: "initialize_test_data (printf ''=== Testing Add-One Operation ==='' [] s) =
             (test_vector, s1)"
    by (simp add: initialize_test_data_eq printf_logged s1_def)
  define s2 where "s2 = logged 0 1 [Poke h CONTROL_REG_ADDR 0]
                          [(''Step 2: Clearing control register'', [])] s1"
  have 2: "clear_control_register e h s1 = (None, s2)"
    unfolding s2_def using p0 by (intro clear_control_register_ok) (simp add: s1_def)
  define s3 where "s3 = logged 0 NUM_REGISTERS
        (map (\<lambda>i. Poke h (input_addr i) (input_word i)) [0..<NUM_REGISTERS])
        ((''Step 3: Writing input data to FPGA'', []) #
         map (\<lambda>i. (''  Wrote 0x%08x to address 0x%02x'', [X (input_word i), X (input_addr i)]))
           [0..<NUM_REGISTERS]) s2"
  have 3: "write_input_data e h test_vector s2 = (None, s3)"
    unfolding s3_def using p1
    by (simp add: write_input_data_ok s2_def s1_def
          test_vector_map [of "\<lambda>i. Poke h (input_addr i)"]
          test_vector_map [of "\<lambda>i v. (''  Wrote 0x%08x to address 0x%02x'', [X v, X (input_addr i)])"])
  define s3' where "s3' = logged 0 0 [] [(''Step 4: Verifying input data readback'', [])] s3"
  have q: "n_peek s3' = n_peek s"
    by (simp add: s3'_def s3_def s2_def s1_def)
  have "readback_loop e h test_vector [0..<NUM_REGISTERS] s3' =
     (Some 1,
      logged (Suc i) 0 (map (\<lambda>i. Peek h (input_addr i)) (take (Suc i) [0..<NUM_REGISTERS]))
        (map (\<lambda>i. (''  Input[%d] readback: 0x%08x'', [D (int i), X (test_vector ! i)]))
           (take i [0..<NUM_REGISTERS]) @
         [(''ERROR: Input readback mismatch at reg %d: expected 0x%08x, got 0x%08x'',
           [D (int ([0..<NUM_REGISTERS] ! i)), X (test_vector ! ([0..<NUM_REGISTERS] ! i)),
            X (snd (peek_resp e (n_peek s3' + i)))])]) s3')"
    using assms(2-) by (intro readback_loop_mismatch) (simp_all add: q test_vector_nth)
  moreover have "take (Suc i) [0..<NUM_REGISTERS] = [0..<Suc i]"
    "take i [0..<NUM_REGISTERS] = [0..<i]"
    using assms(2) by (simp_all del: upt_Suc)
  moreover have "map (\<lambda>i. (''  Input[%d] readback: 0x%08x'', [D (int i), X (test_vector ! i)])) [0..<i] =
     map (\<lambda>i. (''  Input[%d] readback: 0x%08x'', [D (int i), X (input_word i)])) [0..<i]"
    using assms(2) by (simp add: test_vector_nth)
  ultimately have 4: "verify_input_readback e h test_vector s3 =
     (Some 1,
      logged (Suc i) 0 (map (\<lambda>i. Peek h (input_addr i)) [0..<Suc i])
        (map (\<lambda>i. (''  Input[%d] readback: 0x%08x'', [D (int i), X (input_word i)])) [0..<i] @
         [(''ERROR: Input readback mismatch at reg %d: expected 0x%08x, got 0x%08x'',
           [D (int i), X (input_word i), X (snd (peek_resp e (n_peek s + i)))])]) s3')"
    using assms(2)
    by (simp add: verify_input_readback_def printf_logged s3'_def [symmetric] q test_vector_nth
          del: upt_Suc)
  show ?thesis
    unfolding test_add_one_operation_def
    by (simp add: 1 2 3 4 del: upt_Suc)
       (simp add: s3'_def s3_def s2_def s1_def stage_lines_def NUM_REGISTERS_def del: upt_Suc)
qed

subsection \<open>Step 7: the polling loop\<close>

text \<open>
  While the status reads succeed with the done bit clear and the budget is not used up,
  the loop goes round. \<open>wait_for_completion_done\<close> is the case where the done bit is
  first seen at attempt \<open>n + 1\<close>: step 7 falls through to step 8 unless that attempt is
  the 1000th, where it returns 1 as on a timeout.
\<close>

lemma poll_loop_stop:
  "\<not> (status AND DONE_BIT = 0 \<and> pc < max_polls) \<Longrightarrow>
   poll_loop e h status pc s = (None, status, pc, s)"
  by (subst poll_loop.simps) auto

lemma poll_loop_step:
  assumes "status AND DONE_BIT = 0" and "pc < max_polls" and "fst (peek_resp e (n_peek s)) = 0"
  shows "poll_loop e h status pc s =
           poll_loop e h (snd (peek_resp e (n_peek s))) (pc + 1)
             (logged 1 0 (poll_ops h 1) (polling_lines e (n_peek s) pc 1) s)"
  using assms
  by (subst poll_loop.simps) (auto simp add: to_logged poll_ops_def split: prod.splits)

lemma poll_loop_busy:
  assumes "\<forall>j<n. fst (peek_resp e (n_peek s + j)) = 0 \<and>
                  snd (peek_resp e (n_peek s + j)) AND DONE_BIT = 0"
    and "status AND DONE_BIT = 0" and "pc + int n \<le> max_polls"
  shows "poll_loop e h status pc s =
           poll_loop e h (if n = 0 then status else snd (peek_resp e (n_peek s + n - 1)))
             (pc + int n)
             (logged n 0 (poll_ops h n) (polling_lines e (n_peek s) pc n) s)"
  using assms
proof (induction n arbitrary: status pc s)
  case 0
  then show ?case by (simp add: poll_ops_def logged_def)
next
  case (Suc n)
  let ?v = "snd (peek_resp e (n_peek s))"
  let ?s = "logged 1 0 (poll_ops h 1) (polling_lines e (n_peek s) pc 1) s"
  have h0: "fst (peek_resp e (n_peek s)) = 0" "?v AND DONE_BIT = 0"
    using Suc.prems(1) by force+
  have hr: "\<forall>j<n. fst (peek_resp e (n_peek ?s + j)) = 0 \<and>
                  snd (peek_resp e (n_peek ?s + j)) AND DONE_BIT = 0"
    using Suc.prems(1) by force
  have 1: "poll_loop e h status pc s = poll_loop e h ?v (pc + 1) ?s"
    using Suc.prems h0 by (intro poll_loop_step) auto
  have 2: "poll_loop e h ?v (pc + 1) ?s =
             poll_loop e h (if n = 0 then ?v else snd (peek_resp e (n_peek ?s + n - 1)))
               (pc + 1 + int n)
               (logged n 0 (poll_ops h n) (polling_lines e (n_peek ?s) (pc + 1) n) ?s)"
    using Suc.prems h0 hr by (intro Suc.IH) auto
  show ?case
    unfolding 1 2 by (simp add: poll_ops_def ac_simps)
qed

lemma polling_lines_add:
  "polling_lines e q pc (n + m) =
     polling_lines e q pc n @ polling_lines e (q + n) (pc + int n) m"
  by (induction n arbitrary: q pc) (simp_all add: ac_simps)

lemma poll_ops_add: "poll_ops h (n + m) = poll_ops h n @ poll_ops h m"
  by (simp add: poll_ops_def replicate_add)

lemma wait_for_completion_timeout:
  assumes "\<forall>j<1000. fst (peek_resp e (n_peek s + j)) = 0 \<and>
                     snd (peek_resp e (n_peek s + j)) AND DONE_BIT = 0"
  shows "wait_for_completion e h s =
           (Some 1, logged 1000 0 (poll_ops h 1000)
              ((''Step 7: Waiting for computation to complete'', []) #
               polling_lines e (n_peek s) 0 1000 @
               [(''ERROR: Timeout waiting for computation completion after %d polls'', [D 1000])])
              s)"
proof -
  let ?s = "logged 0 0 [] [(''Step 7: Waiting for computation to complete'', [])] s"
  have "poll_loop e h 0 0 ?s =
          poll_loop e h (snd (peek_resp e (n_peek ?s + 1000 - 1))) (0 + int 1000)
            (logged 1000 0 (poll_ops h 1000) (polling_lines e (n_peek ?s) 0 1000) ?s)"
    using assms poll_loop_busy [of 1000 e ?s 0 0 h] by (simp add: max_polls_def)
  also have "\<dots> = (None, snd (peek_resp e (n_peek ?s + 1000 - 1)), 1000,
                    logged 1000 0 (poll_ops h 1000) (polling_lines e (n_peek ?s) 0 1000) ?s)"
    by (simp add: poll_loop_stop max_polls_def)
  finally show ?thesis
    by (simp add: wait_for_completion_def printf_logged max_polls_def)
qed

lemma wait_for_completion_done:
  assumes "\<forall>j<n. fst (peek_resp e (n_peek s + j)) = 0 \<and>
                  snd (peek_resp e (n_peek s + j)) AND DONE_BIT = 0"
    and "fst (peek_resp e (n_peek s + n)) = 0"
    and "snd (peek_resp e (n_peek s + n)) AND DONE_BIT \<noteq> 0"
    and "n < 1000"
  shows "wait_for_completion e h s =
           (if n = 999 then Some 1 else None,
            logged (Suc n) 0 (poll_ops h (Suc n))
              ((''Step 7: Waiting for computation to complete'', []) #
               polling_lines e (n_peek s) 0 (Suc n) @
               [if n = 999 then
                  (''ERROR: Timeout waiting for computation completion after %d polls'',
                   [D (int (Suc n))])
                else (''Computation completed after %d polls'', [D (int (Suc n))])])
              s)"
proof -
  let ?s = "logged 0 0 [] [(''Step 7: Waiting for computation to complete'', [])] s"
  let ?t = "logged n 0 (poll_ops h n) (polling_lines e (n_peek ?s) 0 n) ?s"
  let ?v = "snd (peek_resp e (n_peek s + n))"
  have busy: "(if n = 0 then 0 else snd (peek_resp e (n_peek s + n - 1))) AND DONE_BIT = 0"
    using assms(1) [rule_format, of "n - 1"] by (cases n) auto
  have "poll_loop e h 0 0 ?s =
          poll_loop e h (if n = 0 then 0 else snd (peek_resp e (n_peek ?s + n - 1))) (0 + int n) ?t"
    using assms by (intro poll_loop_busy) (auto simp: max_polls_def)
  also have "\<dots> = poll_loop e h ?v (0 + int n + 1)
                     (logged 1 0 (poll_ops h 1) (polling_lines e (n_peek ?t) (0 + int n) 1) ?t)"
    using assms(2-) busy by (subst poll_loop_step) (auto simp: max_polls_def)
  also have "\<dots> = (None, ?v, 0 + int n + 1,
                    logged 1 0 (poll_ops h 1) (polling_lines e (n_peek ?t) (0 + int n) 1) ?t)"
    using assms by (intro poll_loop_stop) simp
  finally have "poll_loop e h 0 0 ?s =
      (None, ?v, int n + 1, logged (Suc n) 0 (poll_ops h (Suc n)) (
         (''Step 7: Waiting for computation to complete'', []) #
               polling_lines e (n_peek s) 0 (Suc n)) s)"
    using polling_lines_add [of e "n_peek s" 0 n 1] poll_ops_add [of h n 1]
    by (simp del: polling_lines.simps)
  then show ?thesis
    using assms(4) by (simp add: wait_for_completion_def printf_logged max_polls_def)
qed

lemma poll_loop_peeks_bounded:
  "0 \<le> pc \<Longrightarrow> pc \<le> max_polls \<Longrightarrow>
   int (n_peek (snd (snd (snd (poll_loop e h st pc s))))) + pc \<le> int (n_peek s) + max_polls"
proof (induction e h st pc s rule: poll_loop.induct)
  case (1 e h status poll_count s)
  show ?case
  proof (cases "status AND DONE_BIT = 0 \<and> poll_count < max_polls")
    case False
    then show ?thesis using 1
      by (subst poll_loop.simps) auto
  next
    case True
    obtain rc v where pk: "peek_resp e (n_peek s) = (rc, v)" by (cases "peek_resp e (n_peek s)")
    show ?thesis
    proof (cases "rc = 0")
      case False
      then show ?thesis using True pk 1(2,3)
        by (subst poll_loop.simps) (simp add: to_logged)
    next
      case rc: True
      have "int (n_peek (snd (snd (snd (poll_loop e h v (poll_count + 1)
               (if (poll_count + 1) mod 100 = 0 then
                 printf ''  Polling... count=%d, status=0x%08x'' [D (poll_count + 1), X v]
                   (logged 1 0 [Usleep 1000, Peek h STATUS_REG_ADDR] [] s)
               else logged 1 0 [Usleep 1000, Peek h STATUS_REG_ADDR] [] s)))))) + (poll_count + 1)
            \<le> int (n_peek (if (poll_count + 1) mod 100 = 0 then
                 printf ''  Polling... count=%d, status=0x%08x'' [D (poll_count + 1), X v]
                   (logged 1 0 [Usleep 1000, Peek h STATUS_REG_ADDR] [] s)
               else logged 1 0 [Usleep 1000, Peek h STATUS_REG_ADDR] [] s)) + max_polls"
        using True pk rc 1(2,3)
        by (intro 1(1) [of "(rc, v)" "logged 1 0 [Usleep 1000, Peek h STATUS_REG_ADDR] [] s" rc v])
           (auto simp: to_logged)
      then show ?thesis using True pk rc
        by (subst poll_loop.simps) (auto simp: to_logged)
    qed
  qed
qed

lemma wait_for_completion_peeks_bounded:
  "n_peek (snd (wait_for_completion e h s)) \<le> n_peek s + 1000"
proof -
  let ?s = "printf ''Step 7: Waiting for computation to complete'' [] s"
  have "int (n_peek (snd (snd (snd (poll_loop e h 0 0 ?s))))) + 0 \<le> int (n_peek ?s) + max_polls"
    by (rule poll_loop_peeks_bounded) (simp_all add: max_polls_def)
  then show ?thesis
    by (auto simp: wait_for_completion_def printf_logged max_polls_def split: prod.splits option.splits)
qed

subsection \<open>Steps 8 to 10\<close>

lemma clear_start_bit_ok:
  "poke_resp e (n_poke s) = 0 \<Longrightarrow>
   clear_start_bit e h s =
     (None, logged 0 1 [Poke h CONTROL_REG_ADDR 0] [(''Step 8: Clearing start bit'', [])] s)"
  by (simp add: clear_start_bit_def to_logged)

lemma output_values_Suc:
  "output_values e q (Suc n) = snd (peek_resp e q) # output_values e (Suc q) n"
  by (simp add: output_values_def map_upt_Suc del: upt_Suc)

lemma output_values_nth: "i < n \<Longrightarrow> output_values e q n ! i = snd (peek_resp e (q + i))"
  by (simp add: output_values_def)

lemma read_output_loop_ok:
  "\<forall>j<length is. fst (peek_resp e (n_peek s + j)) = 0 \<Longrightarrow>
   read_output_loop e h is out s =
     (None, out @ output_values e (n_peek s) (length is),
      logged (length is) 0 (map (\<lambda>i. Peek h (output_addr i)) is)
        (output_lines e (n_peek s) is) s)"
proof (induction "is" arbitrary: out s)
  case Nil
  then show ?case by (simp add: logged_def output_values_def)
next
  case (Cons i "is")
  have 0: "fst (peek_resp e (n_peek s)) = 0" using Cons.prems by force
  have r: "\<forall>j<length is. fst (peek_resp e (n_peek s + 1 + j)) = 0" using Cons.prems by force
  show ?case
    using r 0
    by (auto simp add: to_logged Cons.IH output_addr_def Let_def output_values_Suc
          split: prod.splits)
qed

lemma read_output_data_ok:
  "\<forall>j<NUM_REGISTERS. fst (peek_resp e (n_peek s + j)) = 0 \<Longrightarrow>
   read_output_data e h s =
     (None, output_values e (n_peek s) NUM_REGISTERS,
      logged NUM_REGISTERS 0 (map (\<lambda>i. Peek h (output_addr i)) [0..<NUM_REGISTERS])
        ((''Step 9: Reading output data'', []) # output_lines e (n_peek s) [0..<NUM_REGISTERS]) s)"
  by (simp add: read_output_data_def printf_logged read_output_loop_ok)

lemma compare_loop_eq:
  "compare_loop td out is c s =
     (c + int (length (filter (\<lambda>i. out ! i = expected (td ! i)) is)),
      logged 0 0 [] (map (result_row td out) is) s)"
  by (induction "is" arbitrary: c s) (simp_all add: printf_logged result_row_def logged_def Let_def)

lemma verify_results_eq:
  "verify_results td out s =
     (if length (correct_slots td out) = NUM_REGISTERS then 0 else 1,
      logged 0 0 []
        (report_header @ map (result_row td out) [0..<NUM_REGISTERS] @
         summary_lines (int (length (correct_slots td out)))) s)"
  by (simp add: verify_results_def compare_loop_eq printf_logged correct_slots_def
        summary_lines_def report_header_def)

lemma length_filter_full:
  "length (filter P xs) = length xs \<longleftrightarrow> (\<forall>x\<in>set xs. P x)"
proof
  assume eq: "length (filter P xs) = length xs"
  show "\<forall>x\<in>set xs. P x"
  proof (rule ccontr)
    assume "\<not> (\<forall>x\<in>set xs. P x)"
    then obtain x where "x \<in> set xs" "\<not> P x" by blast
    then have "length (filter P xs) < length xs" by (rule length_filter_less)
    with eq show False by simp
  qed
next
  assume "\<forall>x\<in>set xs. P x"
  then show "length (filter P xs) = length xs" by simp
qed

lemma all_correct_iff:
  "length (correct_slots td out) = NUM_REGISTERS \<longleftrightarrow>
     (\<forall>i<NUM_REGISTERS. out ! i = expected (td ! i))"
  using length_filter_full [of "\<lambda>i. out ! i = expected (td ! i)" "[0..<NUM_REGISTERS]"]
  by (auto simp add: correct_slots_def)

subsection \<open>The whole cycle\<close>

text \<open>
  The cycle when steps 2 to 6 succeed and the done bit is first seen at attempt
  \<open>n + 1\<close>, and its return code, trace and last line when steps 8 and 9 succeed too.
\<close>

lemma cycle_done:
  assumes "started e s" and "done_at e s n" and "n < 1000"
  shows "test_add_one_operation e h s =
     (if n = 999 then
        (1, logged (10 + n) 10 (stage_ops h @ start_ops h @ poll_ops h (Suc n))
              (stage_lines @ start_lines (snd (peek_resp e (n_peek s + 8))) @
               wait_lines e (n_peek s + 9) (Suc n)) s)
      else
        (case clear_start_bit e h
                (logged (10 + n) 10 (stage_ops h @ start_ops h @ poll_ops h (Suc n))
                   (stage_lines @ start_lines (snd (peek_resp e (n_peek s + 8))) @
                    wait_lines e (n_peek s + 9) (Suc n)) s) of
           (Some rc, s') \<Rightarrow> (rc, s')
         | (None, s8) \<Rightarrow>
             (case read_output_data e h s8 of (Some rc, output_data, s') \<Rightarrow> (rc, s')
              | (None, output_data, s9) \<Rightarrow> verify_results test_vector output_data s9)))"
proof -
  let ?s6 = "logged 9 10 (stage_ops h @ start_ops h)
                (stage_lines @ start_lines (snd (peek_resp e (n_peek s + 8)))) s"
  have b: "\<forall>j<n. fst (peek_resp e (n_peek ?s6 + j)) = 0 \<and>
                  snd (peek_resp e (n_peek ?s6 + j)) AND DONE_BIT = 0"
    and d: "fst (peek_resp e (n_peek ?s6 + n)) = 0"
           "snd (peek_resp e (n_peek ?s6 + n)) AND DONE_BIT \<noteq> 0"
    using assms(2) by (simp_all add: done_at_def busy_polls_def)
  show ?thesis
    using assms(3)
    by (simp add: cycle_started [OF assms(1)] wait_for_completion_done [OF b d assms(3)]
          wait_lines_def ac_simps del: polling_lines.simps)
qed

lemma cycle_completed:
  assumes "started e s" and "done_at e s n" and "n < 999" and "finishes e s n"
  shows "test_add_one_operation e h s =
           verify_results test_vector (output_values e (n_peek s + 10 + n) NUM_REGISTERS)
             (logged (18 + n) 11 (cycle_ops h (Suc n))
                (stage_lines @ start_lines (snd (peek_resp e (n_peek s + 8))) @
                 wait_lines e (n_peek s + 9) (Suc n) @ finish_lines e (n_peek s + 10 + n)) s)"
proof -
  define s7 where "s7 = logged (10 + n) 10 (stage_ops h @ start_ops h @ poll_ops h (Suc n))
                   (stage_lines @ start_lines (snd (peek_resp e (n_peek s + 8))) @
                    wait_lines e (n_peek s + 9) (Suc n)) s"
  have 7: "test_add_one_operation e h s =
        (case clear_start_bit e h s7 of
           (Some rc, s') \<Rightarrow> (rc, s')
         | (None, s8) \<Rightarrow>
             (case read_output_data e h s8 of (Some rc, output_data, s') \<Rightarrow> (rc, s')
              | (None, output_data, s9) \<Rightarrow> verify_results test_vector output_data s9))"
    unfolding s7_def using assms(3) by (subst cycle_done [OF assms(1,2)]) simp_all
  define s8 where "s8 = logged 0 1 [Poke h CONTROL_REG_ADDR 0] [(''Step 8: Clearing start bit'', [])] s7"
  have 8: "clear_start_bit e h s7 = (None, s8)"
    unfolding s8_def using assms(4)
    by (intro clear_start_bit_ok) (simp add: finishes_def s7_def)
  define s9 where "s9 = logged NUM_REGISTERS 0 (map (\<lambda>i. Peek h (output_addr i)) [0..<NUM_REGISTERS])
        ((''Step 9: Reading output data'', []) # output_lines e (n_peek s8) [0..<NUM_REGISTERS]) s8"
  have 9: "read_output_data e h s8 = (None, output_values e (n_peek s8) NUM_REGISTERS, s9)"
    unfolding s9_def using assms(4)
    by (intro read_output_data_ok) (simp add: finishes_def s8_def s7_def ac_simps)
  have q: "n_peek s8 = n_peek s + 10 + n"
    by (simp add: s8_def s7_def)
  have "s9 = logged (18 + n) 11 (cycle_ops h (Suc n))
                (stage_lines @ start_lines (snd (peek_resp e (n_peek s + 8))) @
                 wait_lines e (n_peek s + 9) (Suc n) @ finish_lines e (n_peek s + 10 + n)) s"
    unfolding s9_def q unfolding s8_def s7_def
    by (simp add: cycle_ops_def finish_ops_def finish_lines_def NUM_REGISTERS_def)
  then show ?thesis
    by (simp add: 7 8 9 q)
qed

lemma cycle_completed_rc:
  assumes "started e s" and "done_at e s n" and "n < 999" and "finishes e s n"
  shows "fst (test_add_one_operation e h s) = (if outputs_correct e s n then 0 else 1)"
    and "trace (snd (test_add_one_operation e h s)) = trace s @ cycle_ops h (Suc n)"
    and "last (stdout (snd (test_add_one_operation e h s))) =
           (if outputs_correct e s n then
              (''ALL OUTPUTS CORRECT! Add-One operation working perfectly!'', [])
            else (''SOME OUTPUTS INCORRECT! Add-One operation has issues.'', []))"
proof -
  have c: "length (correct_slots test_vector (output_values e (n_peek s + 10 + n) NUM_REGISTERS)) =
             NUM_REGISTERS \<longleftrightarrow> outputs_correct e s n"
    by (simp add: all_correct_iff outputs_correct_def output_values_nth test_vector_nth)
  show "fst (test_add_one_operation e h s) = (if outputs_correct e s n then 0 else 1)"
    by (simp add: cycle_completed [OF assms] verify_results_eq c)
  show "trace (snd (test_add_one_operation e h s)) = trace s @ cycle_ops h (Suc n)"
    by (simp add: cycle_completed [OF assms] verify_results_eq)
  show "last (stdout (snd (test_add_one_operation e h s))) =
           (if outputs_correct e s n then
              (''ALL OUTPUTS CORRECT! Add-One operation working perfectly!'', [])
            else (''SOME OUTPUTS INCORRECT! Add-One operation has issues.'', []))"
    using c by (simp add: cycle_completed [OF assms] verify_results_eq summary_lines_def)
qed

subsection \<open>The cycle only adds register operations to the trace\<close>

text \<open>
  For every environment, each step of the cycle continues the trace without a detach
  call; so does the cycle.
\<close>

lemma extends_refl [simp]: "extends s s"
  by (simp add: extends_def)

lemma extends_trans: "extends s s' \<Longrightarrow> extends s' s'' \<Longrightarrow> extends s s''"
  by (auto simp: extends_def)

lemma extends_printf [simp]: "extends s (printf fmt args s') \<longleftrightarrow> extends s s'"
  by (simp add: extends_def printf_def)

lemma extends_poke: "extends s s' \<Longrightarrow> extends s (snd (fpga_pci_poke e h addr v s'))"
  by (auto simp: extends_def fpga_pci_poke_def detach_calls_def prefix_def)

lemma extends_peek: "extends s s' \<Longrightarrow> extends s (snd (fpga_pci_peek e h addr s'))"
  by (auto simp: extends_def fpga_pci_peek_def detach_calls_def prefix_def)

lemma extends_usleep: "extends s s' \<Longrightarrow> extends s (usleep us s')"
  by (auto simp: extends_def usleep_def detach_calls_def prefix_def)

lemma extends_initialize_loop:
  "extends s0 s \<Longrightarrow> extends s0 (snd (initialize_loop is td s))"
  by (induction "is" arbitrary: td s) (simp_all add: Let_def)

lemma extends_initialize_test_data:
  "extends s0 s \<Longrightarrow> extends s0 (snd (initialize_test_data s))"
  by (simp add: initialize_test_data_def extends_initialize_loop)

lemma extends_clear_control_register:
  "extends s0 s \<Longrightarrow> extends s0 (snd (clear_control_register e h s))"
  using extends_poke [of s0 "printf ''Step 2: Clearing control register'' [] s" e h CONTROL_REG_ADDR 0]
  by (auto simp add: clear_control_register_def split: prod.splits)

lemma extends_write_input_loop:
  "extends s0 s \<Longrightarrow> extends s0 (snd (write_input_loop e h td is s))"
proof (induction "is" arbitrary: s)
  case Nil
  then show ?case by simp
next
  case (Cons i "is")
  have "extends s0 (snd (fpga_pci_poke e h (INPUT_BASE_ADDR + of_nat (i * 4)) (td ! i) s))"
    using Cons.prems by (rule extends_poke)
  then show ?case
    by (auto simp: Let_def split: prod.splits intro!: Cons.IH)
qed

lemma extends_write_input_data:
  "extends s0 s \<Longrightarrow> extends s0 (snd (write_input_data e h td s))"
  by (simp add: write_input_data_def extends_write_input_loop)

lemma extends_readback_loop:
  "extends s0 s \<Longrightarrow> extends s0 (snd (readback_loop e h td is s))"
proof (induction "is" arbitrary: s)
  case Nil
  then show ?case by simp
next
  case (Cons i "is")
  have "extends s0 (snd (fpga_pci_peek e h (INPUT_BASE_ADDR + of_nat (i * 4)) s))"
    using Cons.prems by (rule extends_peek)
  then show ?case
    by (auto simp: Let_def split: prod.splits intro!: Cons.IH)
qed

lemma extends_verify_input_readback:
  "extends s0 s \<Longrightarrow> extends s0 (snd (verify_input_readback e h td s))"
  by (simp add: verify_input_readback_def extends_readback_loop)

lemma extends_check_initial_status:
  "extends s0 s \<Longrightarrow> extends s0 (snd (check_initial_status e h s))"
  using extends_peek [of s0 "printf ''Step 5: Checking initial status'' [] s" e h STATUS_REG_ADDR]
  by (auto simp add: check_initial_status_def split: prod.splits)

lemma extends_start_computation:
  "extends s0 s \<Longrightarrow> extends s0 (snd (start_computation e h s))"
  using extends_poke [of s0 "printf ''Step 6: Starting Add-One computation'' [] s" e h
      CONTROL_REG_ADDR START_BIT]
  by (auto simp add: start_computation_def split: prod.splits)

lemma extends_poll_loop:
  "extends s0 s \<Longrightarrow> extends s0 (snd (snd (snd (poll_loop e h status pc s))))"
proof (induction e h status pc s rule: poll_loop.induct)
  case (1 e h status poll_count s)
  have p: "extends s0 (snd (fpga_pci_peek e h STATUS_REG_ADDR (usleep 1000 s)))"
    using "1.prems" by (intro extends_peek extends_usleep)
  show ?case
  proof (cases "status AND DONE_BIT = 0 \<and> poll_count < max_polls")
    case False
    then show ?thesis
      using "1.prems" by (subst poll_loop.simps) auto
  next
    case True
    obtain rc v s1 where pk: "fpga_pci_peek e h STATUS_REG_ADDR (usleep 1000 s) = ((rc, v), s1)"
      by (metis surj_pair)
    show ?thesis
    proof (cases "rc = 0")
      case False
      then show ?thesis
        using True pk p by (subst poll_loop.simps) simp
    next
      case rc: True
      have "extends s0 (snd (snd (snd (poll_loop e h v (poll_count + 1)
               (if (poll_count + 1) mod 100 = 0 then
                  printf ''  Polling... count=%d, status=0x%08x'' [D (poll_count + 1), X v] s1
                else s1)))))"
        using True pk rc p by (intro "1.IH" [of "(rc, v)" s1 rc v]) auto
      then show ?thesis
        using True pk rc by (subst poll_loop.simps) simp
    qed
  qed
qed

lemma extends_wait_for_completion:
  "extends s0 s \<Longrightarrow> extends s0 (snd (wait_for_completion e h s))"
  using extends_poll_loop [of s0 "printf ''Step 7: Waiting for computation to complete'' [] s"
      e h 0 0]
  by (auto simp: wait_for_completion_def split: prod.splits option.splits)

lemma extends_clear_start_bit:
  "extends s0 s \<Longrightarrow> extends s0 (snd (clear_start_bit e h s))"
  using extends_poke [of s0 "printf ''Step 8: Clearing start bit'' [] s" e h CONTROL_REG_ADDR 0]
  by (auto simp add: clear_start_bit_def split: prod.splits)

lemma extends_read_output_loop:
  "extends s0 s \<Longrightarrow> extends s0 (snd (snd (read_output_loop e h is out s)))"
proof (induction "is" arbitrary: out s)
  case Nil
  then show ?case by simp
next
  case (Cons i "is")
  have "extends s0 (snd (fpga_pci_peek e h (OUTPUT_BASE_ADDR + of_nat (i * 4)) s))"
    using Cons.prems by (rule extends_peek)
  then show ?case
    by (auto simp: Let_def split: prod.splits intro!: Cons.IH)
qed

lemma extends_read_output_data:
  "extends s0 s \<Longrightarrow> extends s0 (snd (snd (read_output_data e h s)))"
  by (simp add: read_output_data_def extends_read_output_loop)

lemma extends_verify_results:
  "extends s0 s \<Longrightarrow> extends s0 (snd (verify_results td out s))"
  by (simp add: verify_results_eq extends_def)

lemma extends_step:
  "initialize_test_data s = (td', s') \<Longrightarrow> extends s0 s \<Longrightarrow> extends s0 s'"
  "clear_control_register e h s = (r, s') \<Longrightarrow> extends s0 s \<Longrightarrow> extends s0 s'"
  "write_input_data e h td s = (r, s') \<Longrightarrow> extends s0 s \<Longrightarrow> extends s0 s'"
  "verify_input_readback e h td s = (r, s') \<Longrightarrow> extends s0 s \<Longrightarrow> extends s0 s'"
  "check_initial_status e h s = (r, s') \<Longrightarrow> extends s0 s \<Longrightarrow> extends s0 s'"
  "start_computation e h s = (r, s') \<Longrightarrow> extends s0 s \<Longrightarrow> extends s0 s'"
  "wait_for_completion e h s = (r, s') \<Longrightarrow> extends s0 s \<Longrightarrow> extends s0 s'"
  "clear_start_bit e h s = (r, s') \<Longrightarrow> extends s0 s \<Longrightarrow> extends s0 s'"
  "read_output_data e h s = (r, out, s') \<Longrightarrow> extends s0 s \<Longrightarrow> extends s0 s'"
  "verify_results td out s = (rc, s') \<Longrightarrow> extends s0 s \<Longrightarrow> extends s0 s'"
  using extends_initialize_test_data [of s0 s] extends_clear_control_register [of s0 s e h]
    extends_write_input_data [of s0 s e h td] extends_verify_input_readback [of s0 s e h td]
    extends_check_initial_status [of s0 s e h] extends_start_computation [of s0 s e h]
    extends_wait_for_completion [of s0 s e h] extends_clear_start_bit [of s0 s e h]
    extends_read_output_data [of s0 s e h] extends_verify_results [of s0 s td out]
  by simp_all

lemma extends_test_add_one_operation:
  "extends s (snd (test_add_one_operation e h s))"
proof -
  obtain td s1 where 1:
    "initialize_test_data (printf ''=== Testing Add-One Operation ==='' [] s) = (td, s1)"
    by (metis surj_pair)
  obtain r2 s2 where 2: "clear_control_register e h s1 = (r2, s2)" by (metis surj_pair)
  obtain r3 s3 where 3: "write_input_data e h td s2 = (r3, s3)" by (metis surj_pair)
  obtain r4 s4 where 4: "verify_input_readback e h td s3 = (r4, s4)" by (metis surj_pair)
  obtain r5 s5 where 5: "check_initial_status e h s4 = (r5, s5)" by (metis surj_pair)
  obtain r6 s6 where 6: "start_computation e h s5 = (r6, s6)" by (metis surj_pair)
  obtain r7 s7 where 7: "wait_for_completion e h s6 = (r7, s7)" by (metis surj_pair)
  obtain r8 s8 where 8: "clear_start_bit e h s7 = (r8, s8)" by (metis surj_pair)
  obtain r9 out s9 where 9: "read_output_data e h s8 = (r9, out, s9)" by (metis surj_pair)
  obtain rc s10 where 10: "verify_results td out s9 = (rc, s10)" by (metis surj_pair)
  have e1: "extends s s1" using extends_step(1) [OF 1] by simp
  have e2: "extends s s2" by (rule extends_step(2) [OF 2 e1])
  have e3: "extends s s3" by (rule extends_step(3) [OF 3 e2])
  have e4: "extends s s4" by (rule extends_step(4) [OF 4 e3])
  have e5: "extends s s5" by (rule extends_step(5) [OF 5 e4])
  have e6: "extends s s6" by (rule extends_step(6) [OF 6 e5])
  have e7: "extends s s7" by (rule extends_step(7) [OF 7 e6])
  have e8: "extends s s8" by (rule extends_step(8) [OF 8 e7])
  have e9: "extends s s9" by (rule extends_step(9) [OF 9 e8])
  have e10: "extends s s10" by (rule extends_step(10) [OF 10 e9])
  show ?thesis
    unfolding test_add_one_operation_def
    by (simp add: 1 2 3 4 5 6 7 8 9 10 e2 e3 e4 e5 e6 e7 e8 e9 e10 split: option.splits)
qed

lemma extends_after_start:
  assumes "started e s"
  shows "extends (logged 9 10 (stage_ops h @ start_ops h)
                (stage_lines @ start_lines (snd (peek_resp e (n_peek s + 8)))) s)
           (snd (test_add_one_operation e h s))"
proof -
  define s6 where "s6 = logged 9 10 (stage_ops h @ start_ops h)
                (stage_lines @ start_lines (snd (peek_resp e (n_peek s + 8)))) s"
  obtain r7 s7 where 7: "wait_for_completion e h s6 = (r7, s7)" by (metis surj_pair)
  obtain r8 s8 where 8: "clear_start_bit e h s7 = (r8, s8)" by (metis surj_pair)
  obtain r9 out s9 where 9: "read_output_data e h s8 = (r9, out, s9)" by (metis surj_pair)
  obtain rc s10 where 10: "verify_results test_vector out s9 = (rc, s10)" by (metis surj_pair)
  have e7: "extends s6 s7" using extends_step(7) [OF 7] by simp
  have e8: "extends s6 s8" by (rule extends_step(8) [OF 8 e7])
  have e9: "extends s6 s9" by (rule extends_step(9) [OF 9 e8])
  have e10: "extends s6 s10" by (rule extends_step(10) [OF 10 e9])
  have "extends s6 (snd (test_add_one_operation e h s))"
    unfolding cycle_started [OF assms, of h] s6_def [symmetric]
    by (simp add: 7 8 9 10 e7 e8 e9 e10 split: option.splits)
  then show ?thesis
    by (simp add: s6_def)
qed

text \<open>
  When the done bit is first seen at an attempt before the 1000th, the cycle goes on to
  step 8: the operation after the polling reads is the write of 0 to Control.
\<close>

lemma trace_clear_start_bit:
  "trace (snd (clear_start_bit e h s)) = trace s @ [Poke h CONTROL_REG_ADDR 0]"
  by (simp add: clear_start_bit_def to_logged)

lemma polling_completes_within_budget:
  assumes "started e s" and "done_at e s n" and "n < 999"
  shows "prefix (trace s @ stage_ops h @ start_ops h @ poll_ops h (Suc n) @
                 [Poke h CONTROL_REG_ADDR 0])
           (trace (snd (test_add_one_operation e h s)))"
proof -
  define s7 where "s7 = logged (10 + n) 10 (stage_ops h @ start_ops h @ poll_ops h (Suc n))
                   (stage_lines @ start_lines (snd (peek_resp e (n_peek s + 8))) @
                    wait_lines e (n_peek s + 9) (Suc n)) s"
  have c: "test_add_one_operation e h s =
        (case clear_start_bit e h s7 of
           (Some rc, s') \<Rightarrow> (rc, s')
         | (None, s8) \<Rightarrow>
             (case read_output_data e h s8 of (Some rc, output_data, s') \<Rightarrow> (rc, s')
              | (None, output_data, s9) \<Rightarrow> verify_results test_vector output_data s9))"
    unfolding s7_def using assms(3) by (subst cycle_done [OF assms(1,2)]) simp_all
  obtain r8 s8 where 8: "clear_start_bit e h s7 = (r8, s8)" by (metis surj_pair)
  obtain r9 out s9 where 9: "read_output_data e h s8 = (r9, out, s9)" by (metis surj_pair)
  obtain rc s10 where 10: "verify_results test_vector out s9 = (rc, s10)" by (metis surj_pair)
  have t8: "trace s8 = trace s7 @ [Poke h CONTROL_REG_ADDR 0]"
    using trace_clear_start_bit [of e h s7] by (simp add: 8)
  have e9: "extends s8 s9" using extends_step(9) [OF 9] by simp
  have e10: "extends s8 s10" by (rule extends_step(10) [OF 10 e9])
  have "prefix (trace s8) (trace (snd (test_add_one_operation e h s)))"
    using e9 e10 by (simp add: c 8 9 10 extends_def split: option.splits)
  then show ?thesis
    by (simp add: t8 s7_def)
qed

lemma detach_calls_cycle:
  "detach_calls (trace (snd (test_add_one_operation e h s))) = detach_calls (trace s)"
  using extends_test_add_one_operation [of s e h] by (simp add: extends_def)

lemma detach_calls_snoc:
  "detach_calls (tr @ [Detach h]) = Suc (detach_calls tr)"
  "detach_calls (tr @ [Attach a b c]) = detach_calls tr"
  by (simp_all add: detach_calls_def)

subsection \<open>Attach, detach and the exit code\<close>

text \<open>
  What \<open>peek_poke_example\<close> and \<open>main\<close> return along each of their paths. When the
  attach succeeds with a handle that is not negative, \<open>peek_poke_example\<close> returns the
  return code of the detach.
\<close>

lemma peek_poke_example_attached:
  assumes "attach_resp e = (0, h)" and "0 \<le> h"
  shows "peek_poke_example e sl pf bar s =
     (case test_add_one_operation e h
             (logged 0 0 [Attach sl pf bar]
                [(''=== Initializing PCI BAR ==='', []), (''PCI BAR attached successfully'', [])] s) of
        (rc, s2) \<Rightarrow>
          (detach_rc e,
           logged 0 0 [Detach h]
             ((if rc \<noteq> 0 then [(''ERROR: Add-One operation test failed'', [])] else []) @
              [if detach_rc e \<noteq> 0 then (''ERROR: Failure while detaching from the FPGA'', [])
               else (''PCI BAR detached successfully'', [])]) s2))"
  using assms
  by (simp add: peek_poke_example_def fpga_pci_attach_def fpga_pci_detach_def printf_def
        logged_def Let_def split: prod.splits)

lemma peek_poke_example_attach_fails:
  assumes "fst (attach_resp e) \<noteq> 0"
  shows "peek_poke_example e sl pf bar s =
     (fst (attach_resp e),
      logged 0 0 [Attach sl pf bar]
        [(''=== Initializing PCI BAR ==='', []),
         (''ERROR: Unable to attach to the AFI on slot id %d, pf id %d, bar id %d'',
          [D sl, D pf, D bar])] s)"
  using assms
  by (cases "attach_resp e")
     (simp add: peek_poke_example_def fpga_pci_attach_def printf_def logged_def)

lemma main_init_fails: "mgmt_init_rc e \<noteq> 0 \<Longrightarrow> fst (main pf bar e s) = 1"
  by (simp add: main_def fpga_mgmt_init_def Let_def)

lemma main_describe_fails:
  "mgmt_init_rc e = 0 \<Longrightarrow> fst (describe_resp e) \<noteq> 0 \<Longrightarrow>
   fst (main pf bar e s) = fst (describe_resp e)"
  by (cases "describe_resp e")
     (simp add: main_def fpga_mgmt_init_def check_afi_ready_def
        fpga_mgmt_describe_local_image_def Let_def)

lemma main_not_loaded:
  "mgmt_init_rc e = 0 \<Longrightarrow> fst (describe_resp e) = 0 \<Longrightarrow>
   info_status (snd (describe_resp e)) \<noteq> FPGA_STATUS_LOADED \<Longrightarrow>
   fst (main pf bar e s) = 1"
  by (cases "describe_resp e")
     (simp add: main_def fpga_mgmt_init_def check_afi_ready_def
        fpga_mgmt_describe_local_image_def Let_def)

lemma main_ready:
  assumes "ready e"
  shows "main pf bar e s =
     (case peek_poke_example e 0 pf bar
             (logged 0 0 [MgmtInit, DescribeLocalImage 0] (ready_lines e) s) of
        (rc, s3) \<Rightarrow>
          (rc, logged 0 0 []
                 [if rc \<noteq> 0 then (''ERROR: Peek/poke example failed'', [])
                  else (''Test completed successfully!'', []),
                  (''Cleaning up...'', [])] s3))"
  using assms
  by (cases "describe_resp e")
     (simp add: ready_def main_def fpga_mgmt_init_def check_afi_ready_def
        fpga_mgmt_describe_local_image_def Let_def printf_def logged_def ready_lines_def
        split: prod.splits)

lemma main_attach_fails:
  "ready e \<Longrightarrow> fst (attach_resp e) \<noteq> 0 \<Longrightarrow> fst (main pf bar e s) = fst (attach_resp e)"
  by (simp add: main_ready peek_poke_example_attach_fails)

lemma main_attached:
  assumes "ready e" and "fst (attach_resp e) = 0" and "0 \<le> snd (attach_resp e)"
  shows "fst (main pf bar e s) = detach_rc e"
proof -
  have "attach_resp e = (0, snd (attach_resp e))"
    using assms(2) by (simp add: prod_eq_iff)
  then show ?thesis
    using assms(3) by (simp add: main_ready [OF assms(1)] peek_poke_example_attached split: prod.splits)
qed

lemma main_full_success:
  assumes "ready e" and "fst (attach_resp e) = 0" and "0 \<le> snd (attach_resp e)"
    and "started e s" and "done_at e s n" and "n < 999" and "finishes e s n"
    and "outputs_correct e s n" and "detach_rc e = 0"
  shows "stdout (snd (main pf bar e s)) =
           stdout (snd (test_add_one_operation e (snd (attach_resp e))
             (logged 0 0 [MgmtInit, DescribeLocalImage 0, Attach 0 pf bar]
                (ready_lines e @
                 [(''=== Initializing PCI BAR ==='', []), (''PCI BAR attached successfully'', [])])
                s))) @
           [(''PCI BAR detached successfully'', []), (''Test completed successfully!'', []),
            (''Cleaning up...'', [])]"
    and "(''ALL OUTPUTS CORRECT! Add-One operation working perfectly!'', []) \<in>
           set (stdout (snd (main pf bar e s)))"
proof -
  define h where "h = snd (attach_resp e)"
  define s1 where "s1 = logged 0 0 [MgmtInit, DescribeLocalImage 0, Attach 0 pf bar]
                (ready_lines e @
                 [(''=== Initializing PCI BAR ==='', []), (''PCI BAR attached successfully'', [])])
                s"
  have a: "attach_resp e = (0, h)" and h: "0 \<le> h"
    using assms(2,3) by (simp_all add: prod_eq_iff h_def)
  have c: "n_peek s1 = n_peek s" "n_poke s1 = n_poke s"
    by (simp_all add: s1_def)
  have run: "started e s1" "done_at e s1 n" "finishes e s1 n" "outputs_correct e s1 n"
    using assms(4,5,7,8) by (simp_all add: counters_cong [OF c])
  obtain rc s2 where t: "test_add_one_operation e h s1 = (rc, s2)"
    by (metis surj_pair)
  have rc: "rc = 0"
    and l: "last (stdout s2) = (''ALL OUTPUTS CORRECT! Add-One operation working perfectly!'', [])"
    using cycle_completed_rc(1,3) [OF run(1,2) assms(6) run(3), of h] run(4) by (simp_all add: t)
  have ne: "stdout s2 \<noteq> []"
    using cycle_completed [OF run(1,2) assms(6) run(3), of h]
    by (simp add: t verify_results_eq report_header_def)
  have m: "main pf bar e s = (0, logged 0 0 [Detach h]
      [(''PCI BAR detached successfully'', []), (''Test completed successfully!'', []),
       (''Cleaning up...'', [])] s2)"
    using t rc
    by (simp add: main_ready [OF assms(1)] peek_poke_example_attached [OF a h] assms(9)
          s1_def)
  show "stdout (snd (main pf bar e s)) =
           stdout (snd (test_add_one_operation e (snd (attach_resp e))
             (logged 0 0 [MgmtInit, DescribeLocalImage 0, Attach 0 pf bar]
                (ready_lines e @
                 [(''=== Initializing PCI BAR ==='', []), (''PCI BAR attached successfully'', [])])
                s))) @
           [(''PCI BAR detached successfully'', []), (''Test completed successfully!'', []),
            (''Cleaning up...'', [])]"
    using t by (simp add: m h_def [symmetric] s1_def [symmetric])
  have "last (stdout s2) \<in> set (stdout s2)"
    using ne by simp
  then show "(''ALL OUTPUTS CORRECT! Add-One operation working perfectly!'', []) \<in>
           set (stdout (snd (main pf bar e s)))"
    by (simp add: m l)
qed

subsection \<open>The environments\<close>

lemma env_ok_run:
  assumes "n_peek s = 0" and "n_poke s = 0"
  shows "started env_ok s" and "done_at env_ok s 0" and "finishes env_ok s 0"
    and "outputs_correct env_ok s 0"
proof -
  show "started env_ok s"
    using assms by (simp add: started_def env_ok_def NUM_REGISTERS_def)
  show "done_at env_ok s 0"
    using assms by (simp add: done_at_def busy_polls_def env_ok_def DONE_BIT_def)
  show "finishes env_ok s 0"
    using assms by (simp add: finishes_def env_ok_def NUM_REGISTERS_def)
  show "outputs_correct env_ok s 0"
    using assms by (simp add: outputs_correct_def env_ok_def expected_def)
qed

lemma env_slot3_run:
  assumes "n_peek s = 0" and "n_poke s = 0"
  shows "started env_slot3 s" and "done_at env_slot3 s 0" and "finishes env_slot3 s 0"
    and "\<not> outputs_correct env_slot3 s 0"
proof -
  show "started env_slot3 s"
    using assms by (simp add: started_def env_slot3_def env_ok_def NUM_REGISTERS_def)
  show "done_at env_slot3 s 0"
    using assms by (simp add: done_at_def busy_polls_def env_slot3_def env_ok_def DONE_BIT_def)
  show "finishes env_slot3 s 0"
    using assms by (simp add: finishes_def env_slot3_def env_ok_def NUM_REGISTERS_def)
  have "snd (peek_resp env_slot3 (n_peek s + 10 + 0 + 3)) \<noteq> expected (input_word 3)"
    using assms by (simp add: env_slot3_def expected_def input_word_def)
  moreover have "3 < NUM_REGISTERS"
    by (simp add: NUM_REGISTERS_def)
  ultimately show "\<not> outputs_correct env_slot3 s 0"
    unfolding outputs_correct_def by blast
qed

lemma started_env_done_last: "n_peek s = 0 \<Longrightarrow> n_poke s = 0 \<Longrightarrow> started env_done_last s"
  by (simp add: started_def env_done_last_def env_ok_def NUM_REGISTERS_def)

lemma done_at_env_done_last: "n_peek s = 0 \<Longrightarrow> done_at env_done_last s 999"
  by (simp add: done_at_def busy_polls_def env_done_last_def env_ok_def DONE_BIT_def)

section \<open>The claims\<close>

text \<open>
  C1: in the environment \<open>env_slot3\<close> everything succeeds except that output slot 3
  holds the input word, not the input word plus one, so the command cycle returns 1.
  The detach succeeds, and \<open>peek_poke_example\<close> returns its return code 0 in place of
  the cycle's 1, after printing that the test failed; \<open>main\<close> then returns 0 and
  reports success.
\<close>

theorem detach_result_replaces_cycle_result:
  "fst (test_add_one_operation env_slot3 0 init_state) = 1 \<and>
   detach_rc env_slot3 = 0 \<and>
   fst (peek_poke_example env_slot3 0 0 0 init_state) = 0 \<and>
   (''ERROR: Add-One operation test failed'', []) \<in>
     set (stdout (snd (peek_poke_example env_slot3 0 0 0 init_state))) \<and>
   fst (main 0 0 env_slot3 init_state) = 0 \<and>
   (''Test completed successfully!'', []) \<in> set (stdout (snd (main 0 0 env_slot3 init_state)))"
proof -
  have a: "attach_resp env_slot3 = (0, 0)" and d: "detach_rc env_slot3 = 0"
    and i: "mgmt_init_rc env_slot3 = 0" and l: "describe_resp env_slot3 = (0, loaded_info)"
    by (simp_all add: env_slot3_def env_ok_def)
  have rc: "fst (test_add_one_operation env_slot3 0 s) = 1" if "n_peek s = 0" "n_poke s = 0" for s
    using cycle_completed_rc(1) [OF env_slot3_run(1,2) [OF that] _ env_slot3_run(3) [OF that], of 0]
      env_slot3_run(4) [OF that]
    by simp
  have 1: "fst (test_add_one_operation env_slot3 0 init_state) = 1"
    by (rule rc) (simp_all add: init_state_def)
  have pp: "fst (peek_poke_example env_slot3 0 0 0 s) = 0 \<and>
            (''ERROR: Add-One operation test failed'', []) \<in>
              set (stdout (snd (peek_poke_example env_slot3 0 0 0 s)))"
    if "n_peek s = 0" "n_poke s = 0" for s
    using rc [of "logged 0 0 [Attach 0 0 0]
                [(''=== Initializing PCI BAR ==='', []), (''PCI BAR attached successfully'', [])] s"]
      that
    by (auto simp add: peek_poke_example_attached [OF a] d split: prod.splits)
  have 2: "fst (peek_poke_example env_slot3 0 0 0 init_state) = 0 \<and>
            (''ERROR: Add-One operation test failed'', []) \<in>
              set (stdout (snd (peek_poke_example env_slot3 0 0 0 init_state)))"
    by (rule pp) (simp_all add: init_state_def)
  have 3: "fst (main 0 0 env_slot3 init_state) = 0 \<and>
   (''Test completed successfully!'', []) \<in> set (stdout (snd (main 0 0 env_slot3 init_state)))"
    using pp [of "printf ''AFI is ready, proceeding with test'' []
                (snd (check_afi_ready env_slot3 0
                  (printf ''FPGA management library initialized successfully'' []
                     (snd (fpga_mgmt_init env_slot3
                        (printf ''=== AWS FPGA Simple Add-One Test ==='' [] init_state))))))"]
    by (auto simp add: main_def check_afi_ready_def fpga_mgmt_init_def
          fpga_mgmt_describe_local_image_def i l loaded_info_def printf_def init_state_def Let_def
          split: prod.splits)
  show ?thesis
    using 1 2 3 d by simp
qed

text \<open>
  C2: the claim fails where the code hands on a return code of the SDK. In the
  environment \<open>env_attach_fails\<close> the readiness check succeeds and the attach returns
  2: the run fails with an attach failure and \<open>main\<close> returns 2, not 1.
\<close>

theorem exit_code_is_sdk_code_counterexample:
  "ready env_attach_fails \<and> fst (attach_resp env_attach_fails) = 2 \<and>
   fst (main 0 0 env_attach_fails init_state) = 2 \<and>
   fst (main 0 0 env_attach_fails init_state) \<noteq> 1"
proof -
  have r: "ready env_attach_fails" and a: "fst (attach_resp env_attach_fails) = 2"
    by (simp_all add: ready_def env_attach_fails_def env_ok_def loaded_info_def)
  show ?thesis
    using r a main_attach_fails [of env_attach_fails 0 0 init_state] by simp
qed

text \<open>
  C2 as amended: \<open>main\<close> returns 0 when the run fully succeeds: the library
  initialisation, the readiness check and the attach succeed, the cycle runs to step 10
  with all 8 outputs correct, and the detach succeeds; the run then reports all outputs
  correct. \<open>main\<close> returns a value other than 0, which is 1 or the return code of
  the SDK call that failed, when the initialisation fails (1), the describe call fails
  (its code), the image is not LOADED (1), the attach fails (its code) or the detach
  fails (its code). So a return value of 0 means that the initialisation, the
  readiness check, the attach and the detach succeeded.
\<close>

theorem main_exit_code:
  "(mgmt_init_rc e \<noteq> 0 \<longrightarrow> fst (main pf bar e s) = 1) \<and>
   (mgmt_init_rc e = 0 \<and> fst (describe_resp e) \<noteq> 0 \<longrightarrow>
      fst (main pf bar e s) = fst (describe_resp e)) \<and>
   (mgmt_init_rc e = 0 \<and> fst (describe_resp e) = 0 \<and>
    info_status (snd (describe_resp e)) \<noteq> FPGA_STATUS_LOADED \<longrightarrow>
      fst (main pf bar e s) = 1) \<and>
   (ready e \<and> fst (attach_resp e) \<noteq> 0 \<longrightarrow> fst (main pf bar e s) = fst (attach_resp e)) \<and>
   (ready e \<and> fst (attach_resp e) = 0 \<and> 0 \<le> snd (attach_resp e) \<and> detach_rc e \<noteq> 0 \<longrightarrow>
      fst (main pf bar e s) = detach_rc e) \<and>
   (ready e \<and> fst (attach_resp e) = 0 \<and> 0 \<le> snd (attach_resp e) \<and>
    started e s \<and> done_at e s n \<and> n < 999 \<and> finishes e s n \<and> outputs_correct e s n \<and>
    detach_rc e = 0 \<longrightarrow>
      fst (main pf bar e s) = 0 \<and>
      (''ALL OUTPUTS CORRECT! Add-One operation working perfectly!'', []) \<in>
        set (stdout (snd (main pf bar e s)))) \<and>
   (fst (main pf bar e s) = 0 \<longrightarrow>
      ready e \<and> fst (attach_resp e) = 0 \<and> (0 \<le> snd (attach_resp e) \<longrightarrow> detach_rc e = 0))"
proof -
  have 1: "mgmt_init_rc e \<noteq> 0 \<longrightarrow> fst (main pf bar e s) = 1"
    by (simp add: main_init_fails)
  have 2: "mgmt_init_rc e = 0 \<and> fst (describe_resp e) \<noteq> 0 \<longrightarrow>
      fst (main pf bar e s) = fst (describe_resp e)"
    by (simp add: main_describe_fails)
  have 3: "mgmt_init_rc e = 0 \<and> fst (describe_resp e) = 0 \<and>
    info_status (snd (describe_resp e)) \<noteq> FPGA_STATUS_LOADED \<longrightarrow>
      fst (main pf bar e s) = 1"
    by (simp add: main_not_loaded)
  have 4: "ready e \<and> fst (attach_resp e) \<noteq> 0 \<longrightarrow> fst (main pf bar e s) = fst (attach_resp e)"
    by (simp add: main_attach_fails)
  have 5: "ready e \<and> fst (attach_resp e) = 0 \<and> 0 \<le> snd (attach_resp e) \<and> detach_rc e \<noteq> 0 \<longrightarrow>
      fst (main pf bar e s) = detach_rc e"
    by (simp add: main_attached)
  have 6: "ready e \<and> fst (attach_resp e) = 0 \<and> 0 \<le> snd (attach_resp e) \<and>
    started e s \<and> done_at e s n \<and> n < 999 \<and> finishes e s n \<and> outputs_correct e s n \<and>
    detach_rc e = 0 \<longrightarrow>
      fst (main pf bar e s) = 0 \<and>
      (''ALL OUTPUTS CORRECT! Add-One operation working perfectly!'', []) \<in>
        set (stdout (snd (main pf bar e s)))"
    using main_full_success(2) [of e s n pf bar] main_attached [of e pf bar s] by auto
  have 7: "fst (main pf bar e s) = 0 \<longrightarrow>
      ready e \<and> fst (attach_resp e) = 0 \<and> (0 \<le> snd (attach_resp e) \<longrightarrow> detach_rc e = 0)"
  proof (intro impI)
    assume z: "fst (main pf bar e s) = 0"
    have r: "ready e"
      using z 1 2 3 by (auto simp: ready_def)
    have a: "fst (attach_resp e) = 0"
      using z r 4 by auto
    have "detach_rc e = 0" if "0 \<le> snd (attach_resp e)"
      using z r a that main_attached [of e pf bar s] by simp
    with r a show "ready e \<and> fst (attach_resp e) = 0 \<and>
                   (0 \<le> snd (attach_resp e) \<longrightarrow> detach_rc e = 0)"
      by simp
  qed
  show ?thesis
    using 1 2 3 4 5 6 7 by (intro conjI)
qed

theorem main_exit_code_witness:
  "fst (main 0 0 env_ok init_state) = 0 \<and>
   (''ALL OUTPUTS CORRECT! Add-One operation working perfectly!'', []) \<in>
     set (stdout (snd (main 0 0 env_ok init_state))) \<and>
   fst (main 0 0 env_busy init_state) = 1 \<and>
   fst (main 0 0 env_attach_fails init_state) = 2"
proof -
  have i: "n_peek init_state = 0" "n_poke init_state = 0"
    by (simp_all add: init_state_def)
  have ok: "ready env_ok \<and> fst (attach_resp env_ok) = 0 \<and> 0 \<le> snd (attach_resp env_ok) \<and>
    started env_ok init_state \<and> done_at env_ok init_state 0 \<and> (0 :: nat) < 999 \<and>
    finishes env_ok init_state 0 \<and> outputs_correct env_ok init_state 0 \<and> detach_rc env_ok = 0"
    using env_ok_run [OF i]
    by (simp add: ready_def) (simp add: env_ok_def loaded_info_def)
  have busy: "mgmt_init_rc env_busy = 0 \<and> fst (describe_resp env_busy) = 0 \<and>
    info_status (snd (describe_resp env_busy)) \<noteq> FPGA_STATUS_LOADED"
    by (simp add: env_busy_def env_ok_def)
  have att: "ready env_attach_fails \<and> fst (attach_resp env_attach_fails) \<noteq> 0"
    "fst (attach_resp env_attach_fails) = 2"
    by (simp_all add: ready_def env_attach_fails_def env_ok_def loaded_info_def)
  have 1: "fst (main 0 0 env_ok init_state) = 0 \<and>
   (''ALL OUTPUTS CORRECT! Add-One operation working perfectly!'', []) \<in>
     set (stdout (snd (main 0 0 env_ok init_state)))"
    using ok main_exit_code [of env_ok 0 0 init_state 0] by blast
  have 2: "fst (main 0 0 env_busy init_state) = 1"
    using busy main_exit_code [of env_busy 0 0 init_state 0] by blast
  have 3: "fst (main 0 0 env_attach_fails init_state) = fst (attach_resp env_attach_fails)"
    using att(1) main_exit_code [of env_attach_fails 0 0 init_state 0] by blast
  show ?thesis
    using 1 2 3 att(2) by simp
qed

text \<open>
  C3: the claim fails at attempt 1000. In the environment \<open>env_done_last\<close> the first
  999 status reads of the polling loop return 0 and the 1000th returns 1, the done bit.
  The cycle returns 1 with the timeout message, and makes no register access after the
  1000th status read: the control register is not cleared and no output is read.
\<close>

theorem done_on_last_attempt_is_timeout:
  "list_all (\<lambda>j. peek_resp env_done_last (9 + j) = (0, 0)) [0..<999] \<and>
   peek_resp env_done_last (9 + 999) = (0, 1) \<and> (1 :: u32) AND DONE_BIT \<noteq> 0 \<and>
   fst (test_add_one_operation env_done_last 0 init_state) = 1 \<and>
   trace (snd (test_add_one_operation env_done_last 0 init_state)) =
     stage_ops 0 @ start_ops 0 @ poll_ops 0 1000 \<and>
   last (stdout (snd (test_add_one_operation env_done_last 0 init_state))) =
     (''ERROR: Timeout waiting for computation completion after %d polls'', [D 1000])"
proof -
  have s: "started env_done_last init_state" and d: "done_at env_done_last init_state 999"
    by (simp_all add: started_env_done_last done_at_env_done_last init_state_def)
  have "list_all (\<lambda>j. peek_resp env_done_last (9 + j) = (0, 0)) [0..<999]"
    by (simp add: list_all_iff env_done_last_def env_ok_def)
  moreover have "peek_resp env_done_last (9 + 999) = (0, 1)"
    by (simp add: env_done_last_def env_ok_def)
  moreover have "(1 :: u32) AND DONE_BIT \<noteq> 0"
    by (simp add: DONE_BIT_def)
  moreover have "trace init_state = []"
    by (simp add: init_state_def)
  ultimately show ?thesis
    by (simp add: cycle_done [OF s d] wait_lines_def)
qed

text \<open>
  C4: when steps 2 to 6 succeed and none of the status reads of the polling loop returns
  a value with the done bit set, the loop makes exactly 1000 status reads, each right
  after a sleep of 1000 microseconds, and makes no other register access; the cycle then
  returns 1 and its last line is the timeout message with 1000 attempts. Whatever the
  environment answers, step 7 makes at most 1000 register reads.
\<close>

theorem polling_times_out_after_max_polls:
  "(started e s \<and> busy_polls e s 1000 \<longrightarrow>
      fst (test_add_one_operation e h s) = 1 \<and>
      trace (snd (test_add_one_operation e h s)) =
        trace s @ stage_ops h @ start_ops h @ poll_ops h 1000 \<and>
      last (stdout (snd (test_add_one_operation e h s))) =
        (''ERROR: Timeout waiting for computation completion after %d polls'', [D 1000])) \<and>
   n_peek (snd (wait_for_completion e h s)) \<le> n_peek s + 1000"
proof (intro conjI impI)
  assume a: "started e s \<and> busy_polls e s 1000"
  let ?s6 = "logged 9 10 (stage_ops h @ start_ops h)
                (stage_lines @ start_lines (snd (peek_resp e (n_peek s + 8)))) s"
  have b: "\<forall>j<1000. fst (peek_resp e (n_peek ?s6 + j)) = 0 \<and>
                     snd (peek_resp e (n_peek ?s6 + j)) AND DONE_BIT = 0"
    using a by (simp add: busy_polls_def)
  have r: "test_add_one_operation e h s =
     (1, logged 1000 0 (poll_ops h 1000)
              ((''Step 7: Waiting for computation to complete'', []) #
               polling_lines e (n_peek ?s6) 0 1000 @
               [(''ERROR: Timeout waiting for computation completion after %d polls'', [D 1000])])
              ?s6)"
    using a by (simp add: cycle_started wait_for_completion_timeout [OF b] del: logged_logged)
  show "fst (test_add_one_operation e h s) = 1"
    by (simp add: r)
  show "trace (snd (test_add_one_operation e h s)) =
        trace s @ stage_ops h @ start_ops h @ poll_ops h 1000"
    by (simp add: r)
  show "last (stdout (snd (test_add_one_operation e h s))) =
        (''ERROR: Timeout waiting for computation completion after %d polls'', [D 1000])"
    by (simp add: r)
next
  show "n_peek (snd (wait_for_completion e h s)) \<le> n_peek s + 1000"
    by (rule wait_for_completion_peeks_bounded)
qed

theorem polling_times_out_after_max_polls_witness:
  "started env_stuck init_state \<and> busy_polls env_stuck init_state 1000 \<and>
   fst (test_add_one_operation env_stuck 0 init_state) = 1 \<and>
   trace (snd (test_add_one_operation env_stuck 0 init_state)) =
     stage_ops 0 @ start_ops 0 @ poll_ops 0 1000 \<and>
   last (stdout (snd (test_add_one_operation env_stuck 0 init_state))) =
     (''ERROR: Timeout waiting for computation completion after %d polls'', [D 1000])"
proof -
  have h: "started env_stuck init_state \<and> busy_polls env_stuck init_state 1000"
    by (simp add: started_def busy_polls_def env_stuck_def env_ok_def init_state_def
          NUM_REGISTERS_def)
  show ?thesis
    using h polling_times_out_after_max_polls [of env_stuck init_state 0]
    by (simp add: init_state_def)
qed

text \<open>
  C5: step 10 returns 0 exactly when every one of the 8 output words equals the expected
  word, and 1 otherwise. The expected word is the input word plus one modulo \<open>2 ^ 32\<close>,
  so it is 0 for the input \<open>0xFFFFFFFF\<close>. In both cases step 10 prints the header, one
  row for each of the 8 slots and the summary with the number of correct slots, and
  makes no SDK call. For a cycle that reaches step 10 (steps 2 to 9 succeed, the done
  bit is seen before attempt 1000) the return code of the cycle is 0 exactly when the
  8 words read from the output zone are the expected ones.
\<close>

theorem verification_outcome:
  "fst (verify_results td out s) =
     (if \<forall>i<NUM_REGISTERS. out ! i = expected (td ! i) then 0 else 1) \<and>
   unat (expected x) = (unat x + 1) mod 2 ^ 32 \<and>
   expected 0xFFFFFFFF = 0 \<and>
   stdout (snd (verify_results td out s)) =
     stdout s @ report_header @ map (result_row td out) [0..<NUM_REGISTERS] @
     summary_lines (int (length (correct_slots td out))) \<and>
   trace (snd (verify_results td out s)) = trace s \<and>
   (started e s \<and> done_at e s n \<and> n < 999 \<and> finishes e s n \<longrightarrow>
      (fst (test_add_one_operation e h s) = 0 \<longleftrightarrow>
         (\<forall>i<NUM_REGISTERS.
            snd (peek_resp e (n_peek s + 10 + n + i)) = expected (input_word i))))"
proof -
  have 1: "fst (verify_results td out s) =
     (if \<forall>i<NUM_REGISTERS. out ! i = expected (td ! i) then 0 else 1)"
    by (simp add: verify_results_eq all_correct_iff)
  have 2: "unat (expected x) = (unat x + 1) mod 2 ^ 32"
    by (simp add: expected_def unat_word_ariths)
  have 3: "expected 0xFFFFFFFF = 0"
    by (simp add: expected_def)
  have 4: "stdout (snd (verify_results td out s)) =
     stdout s @ report_header @ map (result_row td out) [0..<NUM_REGISTERS] @
     summary_lines (int (length (correct_slots td out)))"
    and 5: "trace (snd (verify_results td out s)) = trace s"
    by (simp_all add: verify_results_eq)
  have 6: "fst (test_add_one_operation e h s) = 0 \<longleftrightarrow>
         (\<forall>i<NUM_REGISTERS.
            snd (peek_resp e (n_peek s + 10 + n + i)) = expected (input_word i))"
    if "started e s \<and> done_at e s n \<and> n < 999 \<and> finishes e s n"
    using that cycle_completed_rc(1) [of e s n h] by (simp add: outputs_correct_def)
  show ?thesis
    using 1 2 3 4 5 6 by blast
qed

theorem verification_outcome_witness:
  "fst (verify_results (replicate 8 0xFFFFFFFF) (replicate 8 0) init_state) = 0 \<and>
   started env_ok init_state \<and> done_at env_ok init_state 0 \<and> finishes env_ok init_state 0 \<and>
   outputs_correct env_ok init_state 0 \<and>
   fst (test_add_one_operation env_ok 0 init_state) = 0"
proof -
  have a: "\<forall>i<NUM_REGISTERS. replicate 8 (0 :: u32) ! i = expected (replicate 8 0xFFFFFFFF ! i)"
    by (simp add: NUM_REGISTERS_def expected_def)
  have i: "n_peek init_state = 0" "n_poke init_state = 0"
    by (simp_all add: init_state_def)
  have b: "started env_ok init_state \<and> done_at env_ok init_state 0 \<and> (0 :: nat) < 999 \<and>
           finishes env_ok init_state 0"
    by (simp add: env_ok_run [OF i])
  have c: "\<forall>i<NUM_REGISTERS. snd (peek_resp env_ok (10 + i)) = expected (input_word i)"
    using env_ok_run(4) [OF i] by (simp add: outputs_correct_def i)
  show ?thesis
    using a b c env_ok_run(4) [OF i]
      verification_outcome [where td = "replicate 8 0xFFFFFFFF" and out = "replicate 8 0"
        and s = init_state and e = env_ok and n = 0 and h = 0]
    by (simp add: i)
qed

text \<open>
  C6: when steps 2 and 3 succeed, the readbacks of the slots below \<open>i\<close> return the words
  written, and the readback of slot \<open>i\<close> succeeds with another word than the one
  written, the cycle returns 1 and its last line is the readback mismatch message with
  the slot, the word written and the word read. The register operations of the cycle
  are then the write of 0 to Control, the 8 input writes and the readbacks of slots 0
  to \<open>i\<close>: the start bit is not written to Control, the Status register is not read
  and the program does not sleep.
\<close>

theorem readback_mismatch_stops_before_start:
  "(\<forall>j<9. poke_resp e (n_poke s + j) = 0) \<and> i < NUM_REGISTERS \<and>
   (\<forall>j<i. peek_resp e (n_peek s + j) = (0, input_word j)) \<and>
   fst (peek_resp e (n_peek s + i)) = 0 \<and>
   snd (peek_resp e (n_peek s + i)) \<noteq> input_word i \<longrightarrow>
     fst (test_add_one_operation e h s) = 1 \<and>
     last (stdout (snd (test_add_one_operation e h s))) =
       (''ERROR: Input readback mismatch at reg %d: expected 0x%08x, got 0x%08x'',
        [D (int i), X (input_word i), X (snd (peek_resp e (n_peek s + i)))]) \<and>
     trace (snd (test_add_one_operation e h s)) =
       trace s @ Poke h CONTROL_REG_ADDR 0 #
       map (\<lambda>j. Poke h (input_addr j) (input_word j)) [0..<NUM_REGISTERS] @
       map (\<lambda>j. Peek h (input_addr j)) [0..<Suc i] \<and>
     Poke h CONTROL_REG_ADDR START_BIT \<notin>
       set (drop (length (trace s)) (trace (snd (test_add_one_operation e h s)))) \<and>
     Peek h STATUS_REG_ADDR \<notin>
       set (drop (length (trace s)) (trace (snd (test_add_one_operation e h s)))) \<and>
     Usleep 1000 \<notin>
       set (drop (length (trace s)) (trace (snd (test_add_one_operation e h s))))"
proof (intro impI)
  assume a: "(\<forall>j<9. poke_resp e (n_poke s + j) = 0) \<and> i < NUM_REGISTERS \<and>
   (\<forall>j<i. peek_resp e (n_peek s + j) = (0, input_word j)) \<and>
   fst (peek_resp e (n_peek s + i)) = 0 \<and>
   snd (peek_resp e (n_peek s + i)) \<noteq> input_word i"
  let ?ops = "Poke h CONTROL_REG_ADDR 0 #
       map (\<lambda>j. Poke h (input_addr j) (input_word j)) [0..<NUM_REGISTERS] @
       map (\<lambda>j. Peek h (input_addr j)) [0..<Suc i]"
  have r: "test_add_one_operation e h s =
     (1, logged (Suc i) 9 ?ops
           (stage_lines @
            (''Step 4: Verifying input data readback'', []) #
            map (\<lambda>j. (''  Input[%d] readback: 0x%08x'', [D (int j), X (input_word j)])) [0..<i] @
            [(''ERROR: Input readback mismatch at reg %d: expected 0x%08x, got 0x%08x'',
              [D (int i), X (input_word i), X (snd (peek_resp e (n_peek s + i)))])]) s)"
    using a by (intro cycle_readback_mismatch) simp_all
  have w: "input_word j \<noteq> START_BIT" if "j < NUM_REGISTERS" for j
    using below_8 [of j] that by (auto simp: NUM_REGISTERS_def input_word_def START_BIT_def)
  have 1: "Poke h CONTROL_REG_ADDR START_BIT \<notin> set ?ops"
    using w by (auto simp: START_BIT_def)
  have n: "STATUS_REG_ADDR \<noteq> input_addr x" if "x < Suc i" for x
    using a that input_addr_neq(1) [of x] by auto
  have 2: "Peek h STATUS_REG_ADDR \<notin> set ?ops"
    using n by (auto simp del: upt_Suc)
  have 3: "Usleep 1000 \<notin> set ?ops"
    by auto
  show "fst (test_add_one_operation e h s) = 1 \<and>
     last (stdout (snd (test_add_one_operation e h s))) =
       (''ERROR: Input readback mismatch at reg %d: expected 0x%08x, got 0x%08x'',
        [D (int i), X (input_word i), X (snd (peek_resp e (n_peek s + i)))]) \<and>
     trace (snd (test_add_one_operation e h s)) = trace s @ ?ops \<and>
     Poke h CONTROL_REG_ADDR START_BIT \<notin>
       set (drop (length (trace s)) (trace (snd (test_add_one_operation e h s)))) \<and>
     Peek h STATUS_REG_ADDR \<notin>
       set (drop (length (trace s)) (trace (snd (test_add_one_operation e h s)))) \<and>
     Usleep 1000 \<notin>
       set (drop (length (trace s)) (trace (snd (test_add_one_operation e h s))))"
    unfolding r using 1 2 3 by (simp del: upt_Suc)
qed

theorem readback_mismatch_stops_before_start_witness:
  "fst (test_add_one_operation env_readback3 0 init_state) = 1 \<and>
   last (stdout (snd (test_add_one_operation env_readback3 0 init_state))) =
     (''ERROR: Input readback mismatch at reg %d: expected 0x%08x, got 0x%08x'',
      [D 3, X (input_word 3), X (snd (peek_resp env_readback3 3))]) \<and>
   snd (peek_resp env_readback3 3) = 0 \<and>
   Poke 0 CONTROL_REG_ADDR START_BIT \<notin>
     set (drop (length (trace init_state))
            (trace (snd (test_add_one_operation env_readback3 0 init_state))))"
proof -
  have i: "n_peek init_state = 0" "n_poke init_state = 0"
    by (simp_all add: init_state_def)
  have a: "(\<forall>j<9. poke_resp env_readback3 (n_poke init_state + j) = 0) \<and>
   (3 :: nat) < NUM_REGISTERS \<and>
   (\<forall>j<3. peek_resp env_readback3 (n_peek init_state + j) = (0, input_word j)) \<and>
   fst (peek_resp env_readback3 (n_peek init_state + 3)) = 0 \<and>
   snd (peek_resp env_readback3 (n_peek init_state + 3)) \<noteq> input_word 3"
    by (simp add: i env_readback3_def env_ok_def NUM_REGISTERS_def input_word_def)
  have b: "snd (peek_resp env_readback3 3) = 0" "n_peek init_state + 3 = 3"
    by (simp_all add: i env_readback3_def)
  show ?thesis
    using a b readback_mismatch_stops_before_start [of env_readback3 init_state 3 0]
    by auto
qed

text \<open>
  C7: when the attach returns 0 and leaves a handle that is not negative,
  \<open>peek_poke_example\<close> calls the detach exactly once, as its last SDK call and with
  that handle, whatever \<open>test_add_one_operation\<close> does and returns. When the attach
  returns a code other than 0, \<open>peek_poke_example\<close> makes no detach call.
\<close>

theorem detach_exactly_once:
  "(fst (attach_resp e) = 0 \<and> 0 \<le> snd (attach_resp e) \<longrightarrow>
      detach_calls (trace (snd (peek_poke_example e slot_id pf_id bar_id s))) =
        detach_calls (trace s) + 1 \<and>
      last (trace (snd (peek_poke_example e slot_id pf_id bar_id s))) =
        Detach (snd (attach_resp e))) \<and>
   (fst (attach_resp e) \<noteq> 0 \<longrightarrow>
      detach_calls (trace (snd (peek_poke_example e slot_id pf_id bar_id s))) =
        detach_calls (trace s))"
proof (intro conjI impI)
  assume a: "fst (attach_resp e) = 0 \<and> 0 \<le> snd (attach_resp e)"
  define h where "h = snd (attach_resp e)"
  define s1 where "s1 = logged 0 0 [Attach slot_id pf_id bar_id]
                [(''=== Initializing PCI BAR ==='', []), (''PCI BAR attached successfully'', [])] s"
  have r: "attach_resp e = (0, h)" and h: "0 \<le> h"
    using a by (simp_all add: h_def prod_eq_iff)
  obtain rc s2 where c: "test_add_one_operation e h s1 = (rc, s2)"
    by (metis surj_pair)
  have d: "detach_calls (trace s2) = detach_calls (trace s)"
    using detach_calls_cycle [of e h s1] unfolding c by (simp add: s1_def detach_calls_snoc)
  show "detach_calls (trace (snd (peek_poke_example e slot_id pf_id bar_id s))) =
          detach_calls (trace s) + 1"
    using c [unfolded s1_def] d by (simp add: peek_poke_example_attached [OF r h] detach_calls_snoc)
  show "last (trace (snd (peek_poke_example e slot_id pf_id bar_id s))) =
          Detach (snd (attach_resp e))"
    using c [unfolded s1_def] by (simp add: peek_poke_example_attached [OF r h] h_def)
next
  assume "fst (attach_resp e) \<noteq> 0"
  then show "detach_calls (trace (snd (peek_poke_example e slot_id pf_id bar_id s))) =
          detach_calls (trace s)"
    by (simp add: peek_poke_example_attach_fails detach_calls_snoc)
qed

theorem detach_exactly_once_witness:
  "fst (attach_resp env_ok) = 0 \<and> 0 \<le> snd (attach_resp env_ok) \<and>
   detach_calls (trace (snd (peek_poke_example env_ok 0 0 0 init_state))) = 1 \<and>
   last (trace (snd (peek_poke_example env_ok 0 0 0 init_state))) = Detach 0 \<and>
   fst (attach_resp env_attach_fails) \<noteq> 0 \<and>
   detach_calls (trace (snd (peek_poke_example env_attach_fails 0 0 0 init_state))) = 0"
proof -
  have a: "fst (attach_resp env_ok) = 0 \<and> 0 \<le> snd (attach_resp env_ok)"
    "snd (attach_resp env_ok) = 0"
    and b: "fst (attach_resp env_attach_fails) \<noteq> 0"
    by (simp_all add: env_ok_def env_attach_fails_def)
  have i: "detach_calls (trace init_state) = 0"
    by (simp add: init_state_def detach_calls_def)
  show ?thesis
    using a b i detach_exactly_once [of env_ok 0 0 0 init_state]
      detach_exactly_once [of env_attach_fails 0 0 0 init_state]
    by simp
qed

text \<open>
  C8: \<open>check_afi_ready\<close> returns 0 exactly when the describe call succeeds and the
  status it reports is LOADED. For every other status it returns 1 and its last line
  names the status it saw: NOT_PROGRAMMED, CLEARED, BUSY, or UNKNOWN for a status the
  program does not name. It asks for the image status once, with no retry.
\<close>

theorem readiness_iff_loaded:
  "(fst (check_afi_ready e slot_id s) = 0 \<longleftrightarrow>
      fst (describe_resp e) = 0 \<and> info_status (snd (describe_resp e)) = FPGA_STATUS_LOADED) \<and>
   (fst (describe_resp e) = 0 \<and> info_status (snd (describe_resp e)) \<noteq> FPGA_STATUS_LOADED \<longrightarrow>
      fst (check_afi_ready e slot_id s) = 1 \<and>
      last (stdout (snd (check_afi_ready e slot_id s))) =
        (''       AFI status: %s'', [S (status_name (info_status (snd (describe_resp e))))])) \<and>
   trace (snd (check_afi_ready e slot_id s)) = trace s @ [DescribeLocalImage slot_id] \<and>
   status_name FPGA_STATUS_NOT_PROGRAMMED = ''NOT_PROGRAMMED'' \<and>
   status_name FPGA_STATUS_CLEARED = ''CLEARED'' \<and>
   status_name FPGA_STATUS_BUSY = ''BUSY'' \<and>
   status_name FPGA_STATUS_UNKNOWN = ''UNKNOWN''"
  by (cases "describe_resp e")
     (simp add: check_afi_ready_def fpga_mgmt_describe_local_image_def printf_def Let_def
        status_name_def)

theorem readiness_iff_loaded_witness:
  "fst (describe_resp env_busy) = 0 \<and>
   info_status (snd (describe_resp env_busy)) \<noteq> FPGA_STATUS_LOADED \<and>
   fst (check_afi_ready env_busy 0 init_state) = 1 \<and>
   last (stdout (snd (check_afi_ready env_busy 0 init_state))) =
     (''       AFI status: %s'', [S ''BUSY'']) \<and>
   trace (snd (check_afi_ready env_busy 0 init_state)) = [DescribeLocalImage 0]"
proof -
  have h: "fst (describe_resp env_busy) = 0 \<and>
           info_status (snd (describe_resp env_busy)) = FPGA_STATUS_BUSY"
    by (simp add: env_busy_def)
  have "trace init_state = []"
    by (simp add: init_state_def)
  then show ?thesis
    using h readiness_iff_loaded [of env_busy 0 init_state] by simp
qed

text \<open>
  C9: the claim fails on a run where everything succeeds (\<open>env_ok\<close>): the first 17
  register operations are those of steps 2 to 4, which ends the input readback
  verification, and the next one is the read of the Status register of step 5, not the
  write of the start bit.
\<close>

theorem status_read_precedes_start_counterexample:
  "take 17 (trace (snd (test_add_one_operation env_ok 0 init_state))) = stage_ops 0 \<and>
   trace (snd (test_add_one_operation env_ok 0 init_state)) ! 17 = Peek 0 STATUS_REG_ADDR \<and>
   trace (snd (test_add_one_operation env_ok 0 init_state)) ! 17 \<noteq>
     Poke 0 CONTROL_REG_ADDR START_BIT"
proof -
  have i: "n_peek init_state = 0" "n_poke init_state = 0" "trace init_state = []"
    by (simp_all add: init_state_def)
  have l: "length (stage_ops 0) = 17"
    by (simp add: stage_ops_def NUM_REGISTERS_def)
  have "trace (snd (test_add_one_operation env_ok 0 init_state)) = cycle_ops 0 (Suc 0)"
    using cycle_completed_rc(2) [OF env_ok_run(1,2) [OF i(1,2)] _ env_ok_run(3) [OF i(1,2)], of 0]
    by (simp add: i)
  then show ?thesis
    by (simp add: cycle_ops_def l nth_append start_ops_def)
qed

text \<open>
  C9 as amended: when steps 2 to 6 succeed, the register operations of the cycle start
  with the write of 0 to Control, the 8 input writes and the 8 input readbacks in
  ascending slot order, then a read of the Status register (step 5), and then the write
  of the start bit to Control. When the cycle runs to step 10, the operations are
  these, then the sleep and status read of each polling attempt, the write of 0 to
  Control and the 8 output reads in ascending slot order, and no other.
\<close>

theorem cycle_register_order:
  "(started e s \<longrightarrow>
      prefix (trace s @ stage_ops h @ [Peek h STATUS_REG_ADDR, Poke h CONTROL_REG_ADDR START_BIT])
        (trace (snd (test_add_one_operation e h s)))) \<and>
   (started e s \<and> done_at e s n \<and> n < 999 \<and> finishes e s n \<longrightarrow>
      trace (snd (test_add_one_operation e h s)) =
        trace s @ stage_ops h @ [Peek h STATUS_REG_ADDR, Poke h CONTROL_REG_ADDR START_BIT] @
        poll_ops h (Suc n) @ finish_ops h)"
proof (intro conjI impI)
  assume "started e s"
  then show "prefix (trace s @ stage_ops h @
                     [Peek h STATUS_REG_ADDR, Poke h CONTROL_REG_ADDR START_BIT])
               (trace (snd (test_add_one_operation e h s)))"
    using extends_after_start [of e s h] by (simp add: extends_def start_ops_def)
next
  assume "started e s \<and> done_at e s n \<and> n < 999 \<and> finishes e s n"
  then show "trace (snd (test_add_one_operation e h s)) =
        trace s @ stage_ops h @ [Peek h STATUS_REG_ADDR, Poke h CONTROL_REG_ADDR START_BIT] @
        poll_ops h (Suc n) @ finish_ops h"
    using cycle_completed_rc(2) [of e s n h] by (simp add: cycle_ops_def start_ops_def)
qed

theorem cycle_register_order_witness:
  "started env_ok init_state \<and> done_at env_ok init_state 0 \<and> finishes env_ok init_state 0 \<and>
   trace (snd (test_add_one_operation env_ok 0 init_state)) =
     stage_ops 0 @ [Peek 0 STATUS_REG_ADDR, Poke 0 CONTROL_REG_ADDR START_BIT] @
     poll_ops 0 1 @ finish_ops 0 \<and>
   prefix (stage_ops 0 @ [Peek 0 STATUS_REG_ADDR, Poke 0 CONTROL_REG_ADDR START_BIT])
     (trace (snd (test_add_one_operation env_ok 0 init_state)))"
proof -
  have i: "n_peek init_state = 0" "n_poke init_state = 0" "trace init_state = []"
    by (simp_all add: init_state_def)
  have b: "started env_ok init_state \<and> done_at env_ok init_state 0 \<and> (0 :: nat) < 999 \<and>
           finishes env_ok init_state 0"
    by (simp add: env_ok_run [OF i(1,2)])
  show ?thesis
    using b cycle_register_order [of env_ok init_state 0 0] by (simp add: i)
qed

text \<open>
  C10: the accuracy line of the summary, the fifteenth line step 10 prints, carries
  the integer part of \<open>correct_count * 100 / 8\<close>, where \<open>correct_count\<close> is the number
  of slots whose output equals the expected word. With the program's operands and
  seven correct outputs (slot 3 not incremented) the line carries 87.
\<close>

theorem accuracy_is_truncated_percentage:
  "stdout (snd (verify_results td out s)) ! (length (stdout s) + 14) =
     (''  Accuracy: %d%%'',
      [D \<lfloor>real (length (correct_slots td out)) * 100 / real NUM_REGISTERS\<rfloor>]) \<and>
   length (correct_slots test_vector ((map expected test_vector)[3 := input_word 3])) = 7 \<and>
   stdout (snd (verify_results test_vector ((map expected test_vector)[3 := input_word 3])
                  init_state)) ! 14 =
     (''  Accuracy: %d%%'', [D 87])"
proof -
  let ?c = "length (correct_slots td out)"
  have f: "\<lfloor>real ?c * 100 / real NUM_REGISTERS\<rfloor> = (int ?c * 100) div int NUM_REGISTERS"
    using floor_divide_of_int_eq [of "int ?c * 100" "int NUM_REGISTERS", where ?'a = real]
    by simp
  have n: "(report_header @ map (result_row td out) [0..<NUM_REGISTERS] @ summary_lines c) ! 14 =
           (''  Accuracy: %d%%'', [D ((c * 100) div int NUM_REGISTERS)])" for c td out
    by (simp add: nth_append report_header_def summary_lines_def NUM_REGISTERS_def)
  have 1: "stdout (snd (verify_results td out s)) ! (length (stdout s) + 14) =
     (''  Accuracy: %d%%'',
      [D \<lfloor>real (length (correct_slots td out)) * 100 / real NUM_REGISTERS\<rfloor>])"
    by (simp add: verify_results_eq n f del: of_nat_mult)
  have 7: "length (correct_slots test_vector ((map expected test_vector)[3 := input_word 3])) = 7"
    by (simp add: correct_slots_def test_vector_def slots expected_def input_word_def)
  have 2: "stdout (snd (verify_results test_vector ((map expected test_vector)[3 := input_word 3])
                  init_state)) ! 14 = (''  Accuracy: %d%%'', [D 87])"
    using n [of test_vector "(map expected test_vector)[3 := input_word 3]" 7]
    by (simp add: verify_results_eq 7 init_state_def NUM_REGISTERS_def)
  show ?thesis
    using 1 7 2 by simp
qed

end
